theory Spec2Isabelle
  imports Complex_Main
begin

section \<open>Data model of \<^verbatim>\<open>run_and_plot.py\<close>\<close>

text \<open>
  \<^verbatim>\<open>SimulationOutputTypeEnum\<close> has the single member \<^verbatim>\<open>TRAJECTORY = "trajectory"\<close>.
\<close>

datatype SimulationOutputTypeEnum = TRAJECTORY

text \<open>
  The pydantic model \<^verbatim>\<open>Simulation\<close>: the field \<^verbatim>\<open>simulation_id\<close> is read from the
  input key \<^verbatim>\<open>id\<close> (its alias).
\<close>

record Simulation =
  simulation_id :: string
  name :: string
  entrypoint :: string
  output_type :: SimulationOutputTypeEnum
  output_path :: string
  dimensions :: int
  description :: string

record SimulationIndex =
  simulations :: "Simulation list"

subsection \<open>\<^verbatim>\<open>SimulationIndex.get_simulation\<close>\<close>

text \<open>
  The \<^verbatim>\<open>for\<close> loop over \<^verbatim>\<open>self.simulations\<close>: it returns at the first element whose
  \<^verbatim>\<open>simulation_id\<close> equals the argument; falling off the end of the function returns
  Python's \<^verbatim>\<open>None\<close>.
\<close>

fun get_simulation_loop :: "Simulation list \<Rightarrow> string \<Rightarrow> Simulation option" where
  "get_simulation_loop [] sid = None"
| "get_simulation_loop (simulation # rest) sid =
     (if simulation_id simulation = sid then Some simulation
      else get_simulation_loop rest sid)"

definition get_simulation :: "SimulationIndex \<Rightarrow> string \<Rightarrow> Simulation option" where
  "get_simulation self sid = get_simulation_loop (simulations self) sid"


section \<open>Errors, strings and paths\<close>

text \<open>
  Every exception the script can end with is a value of \<open>error\<close>; a computation that can
  raise returns \<open>error + 'a\<close>, with \<open>Inl\<close> for the raise.
\<close>

datatype error =
    FileNotFoundError
  | OSError
  | JSONDecodeError
  | TypeError
  | ValidationError
  | NoDataError
  | ComputeError
  | ColumnNotFoundError string
  | DuplicateError
  | CalledProcessError int
  | ValueError string
  | IndexError

definition ebind :: "error + 'a \<Rightarrow> ('a \<Rightarrow> error + 'b) \<Rightarrow> error + 'b" where
  "ebind m f = (case m of Inl e \<Rightarrow> Inl e | Inr v \<Rightarrow> f v)"

text \<open>Python's \<^verbatim>\<open>str\<close> of a non-negative and of an arbitrary integer (decimal digits).\<close>

definition digit_char :: "nat \<Rightarrow> char" where
  "digit_char d = ''0123456789'' ! d"

fun string_of_nat :: "nat \<Rightarrow> string" where
  "string_of_nat n =
     (if n < 10 then [digit_char n]
      else string_of_nat (n div 10) @ [digit_char (n mod 10)])"

declare string_of_nat.simps [simp del]

definition string_of_int :: "int \<Rightarrow> string" where
  "string_of_int i =
     (if i < 0 then CHR ''-'' # string_of_nat (nat (- i)) else string_of_nat (nat i))"

text \<open>Python's \<^verbatim>\<open>int(x)\<close> on a number: truncation towards zero.\<close>

definition py_int :: "rat \<Rightarrow> int" where
  "py_int r = (if r < 0 then - \<lfloor>- r\<rfloor> else \<lfloor>r\<rfloor>)"

text \<open>
  Python's \<^verbatim>\<open>round(x, 2)\<close>, on exact numbers: to two decimal places, a tie going to the
  even neighbour.
\<close>

definition py_round2 :: "rat \<Rightarrow> rat" where
  "py_round2 r =
     (let y = r * 100; f = \<lfloor>y\<rfloor>; d = y - of_int f
      in of_int (if d < 1 / 2 then f else if 1 / 2 < d then f + 1
                 else if even f then f else f + 1) / 100)"

text \<open>
  \<^verbatim>\<open>pathlib.Path\<close>. The script builds its paths with the constructor \<^verbatim>\<open>Path(s)\<close> and the
  operator \<^verbatim>\<open>/\<close> only; both are kept as constructors, so that nothing is assumed about
  how pathlib normalises the text. A plain string handed to a file operation is the path
  \<open>Path s\<close>.
\<close>

datatype path = Path string | Slash path string

text \<open>
  \<^verbatim>\<open>p.name\<close>, the final component: for the paths of this script the text after the last
  \<^verbatim>\<open>/\<close> of the right operand.
\<close>

definition last_component :: "string \<Rightarrow> string" where
  "last_component s = rev (takeWhile (\<lambda>c. c \<noteq> CHR ''/'') (rev s))"

fun path_name :: "path \<Rightarrow> string" where
  "path_name (Path s) = last_component s"
| "path_name (Slash p s) = last_component s"

section \<open>The world outside the script\<close>

text \<open>
  A \<^verbatim>\<open>polars.DataFrame\<close>: its columns in order, each with its name and its values. The type
  of the values is left open where the script does not compute with them.
\<close>

type_synonym 'a DataFrame = "(string \<times> 'a list) list"

text \<open>
  The numbers of numpy. A \<^verbatim>\<open>float64\<close> is a finite number, an infinity or NaN; an
  \<^verbatim>\<open>int64\<close> is an integer, its arithmetic wrapping around at 64 bits. A scalar and an
  array have one of the two types.
\<close>

datatype f64 = Finite rat | PosInf | NegInf | NaN

datatype scalar = I64 int | F64 f64

datatype ndarray = Int64Array "int list" | Float64Array "f64 list"

text \<open>
  A value of a numeric column of a frame: an integer, a float, or \<^verbatim>\<open>null\<close> where the
  file has an empty field.
\<close>

datatype cell = Null | IntCell int | FloatCell f64

text \<open>
  What \<^verbatim>\<open>plot_trajectory\<close> draws on the 3D axes, call by call: the line of
  \<^verbatim>\<open>ax.plot\<close>, the two \<^verbatim>\<open>ax.scatter\<close> markers, the axis labels and the arguments of
  the calls of \<^verbatim>\<open>set_xlim\<close>, \<^verbatim>\<open>set_ylim\<close>, \<^verbatim>\<open>set_zlim\<close> that succeeded.
\<close>

record figure =
  line :: "ndarray \<times> ndarray \<times> ndarray"
  start_marker :: "scalar \<times> scalar \<times> scalar"
  end_marker :: "scalar \<times> scalar \<times> scalar"
  xlabel :: string
  ylabel :: string
  zlabel :: string
  xlim :: "f64 \<times> f64"
  ylim :: "f64 \<times> f64"
  zlim :: "f64 \<times> f64"

datatype content = Bytes string | Image figure

text \<open>
  The result of starting the child process and waiting for it: it could not be started
  (\<^verbatim>\<open>subprocess.run\<close> raises before any child exists), or it ran, wrote \<open>written\<close> to its
  standard output and exited with \<open>status\<close>. A child that never exits, and what a child
  does to files other than its standard output, are outside this model.
\<close>

datatype launch = NotLaunched | Exited (written: string) (status: int)

datatype level = Info | Error

datatype logval = LStr string | LNum rat

record log_record =
  severity :: level
  event :: string
  bindings :: "(string \<times> logval) list"

text \<open>
  The parts of the environment the script does not change: the parsers of the libraries
  (\<^verbatim>\<open>json.load\<close>, pydantic's lax conversion of a JSON value that is not an integer to
  \<^verbatim>\<open>int\<close>, the CSV reader of polars giving the columns of the table), which paths can
  be opened for writing, what the binary does for an argument vector, the successive
  readings of the clock, and the rounding of an exact result to a \<^verbatim>\<open>float64\<close> (the
  rounding before the range is checked; nothing is assumed about it).
\<close>

datatype json =
    JNull
  | JBool bool
  | JInt int
  | JFloat rat
  | JStr string
  | JArr "json list"
  | JObj "(string \<times> json) list"

record 'a env =
  json_loads :: "string \<Rightarrow> error + json"
  lax_int :: "json \<Rightarrow> int option"
  parse_csv :: "string \<Rightarrow> error + 'a list list"
  writable :: "path \<Rightarrow> bool"
  spawn :: "string list \<Rightarrow> launch"
  clock :: "nat \<Rightarrow> rat"
  round64 :: "rat \<Rightarrow> rat"

text \<open>
  The state the script changes: the files, the file objects that are open, the child
  processes run so far (their argument vectors), the log records emitted, and the number
  of clock readings taken.
\<close>

record world =
  files :: "path \<Rightarrow> content option"
  open_files :: "path list"
  processes :: "string list list"
  log_records :: "log_record list"
  ticks :: nat

definition now :: "'a env \<Rightarrow> world \<Rightarrow> rat \<times> world" where
  "now env w = (clock env (ticks w), w\<lparr>ticks := Suc (ticks w)\<rparr>)"

text \<open>
  \<^verbatim>\<open>LOGGER.bind(simulation_id=...)\<close> gives a logger that adds the bound pair to every
  record; \<open>log_emit\<close> is one call of \<^verbatim>\<open>log.error\<close> or \<^verbatim>\<open>log.info\<close> on it.
\<close>

definition log_emit ::
  "(string \<times> logval) list \<Rightarrow> level \<Rightarrow> string \<Rightarrow> (string \<times> logval) list \<Rightarrow> world \<Rightarrow> world" where
  "log_emit bound lvl msg kv w =
     w\<lparr>log_records := log_records w @ [\<lparr>severity = lvl, event = msg, bindings = bound @ kv\<rparr>]\<rparr>"


section \<open>\<^verbatim>\<open>load_index\<close>\<close>

text \<open>
  Pydantic's validation of one field, read off the annotations of the class
  \<^verbatim>\<open>Simulation\<close>. A \<^verbatim>\<open>str\<close> field takes a JSON string only, and
  \<^verbatim>\<open>StringConstraints(min_length=n)\<close> refuses a shorter one; the enum field takes the value
  of one of its members; the \<^verbatim>\<open>int\<close> field takes an integer, or whatever the lax
  conversion accepts. A missing key fails: no field has a default. All failures of one
  model are reported as one \<^verbatim>\<open>ValidationError\<close>.
\<close>

fun str_field :: "nat \<Rightarrow> json option \<Rightarrow> error + string" where
  "str_field min_length (Some (JStr s)) =
     (if length s < min_length then Inl ValidationError else Inr s)"
| "str_field min_length other = Inl ValidationError"

fun enum_field :: "json option \<Rightarrow> error + SimulationOutputTypeEnum" where
  "enum_field (Some (JStr s)) =
     (if s = ''trajectory'' then Inr TRAJECTORY else Inl ValidationError)"
| "enum_field other = Inl ValidationError"

fun int_field :: "(json \<Rightarrow> int option) \<Rightarrow> json option \<Rightarrow> error + int" where
  "int_field lax (Some (JInt i)) = Inr i"
| "int_field lax (Some j) = (case lax j of Some i \<Rightarrow> Inr i | None \<Rightarrow> Inl ValidationError)"
| "int_field lax None = Inl ValidationError"

text \<open>
  One element of \<^verbatim>\<open>simulations\<close>: it must be an object (a \<^verbatim>\<open>dict\<close> after
  \<^verbatim>\<open>json.load\<close>, given here by its items, looked up by key); keys that are no field are
  ignored, and \<^verbatim>\<open>simulation_id\<close> is populated from the key \<^verbatim>\<open>id\<close>.
\<close>

fun validate_Simulation :: "(json \<Rightarrow> int option) \<Rightarrow> json \<Rightarrow> error + Simulation" where
  "validate_Simulation lax (JObj kvs) =
     ebind (str_field 1 (map_of kvs ''id'')) (\<lambda>v_id.
     ebind (str_field 1 (map_of kvs ''name'')) (\<lambda>v_name.
     ebind (str_field 1 (map_of kvs ''entrypoint'')) (\<lambda>v_entrypoint.
     ebind (enum_field (map_of kvs ''output_type'')) (\<lambda>v_output_type.
     ebind (str_field 1 (map_of kvs ''output_path'')) (\<lambda>v_output_path.
     ebind (int_field lax (map_of kvs ''dimensions'')) (\<lambda>v_dimensions.
     ebind (str_field 0 (map_of kvs ''description'')) (\<lambda>v_description.
       Inr \<lparr>simulation_id = v_id, name = v_name, entrypoint = v_entrypoint,
            output_type = v_output_type, output_path = v_output_path,
            dimensions = v_dimensions, description = v_description\<rparr>)))))))"
| "validate_Simulation lax other = Inl ValidationError"

fun validate_list :: "(json \<Rightarrow> int option) \<Rightarrow> json list \<Rightarrow> error + Simulation list" where
  "validate_list lax [] = Inr []"
| "validate_list lax (j # js) =
     (case validate_Simulation lax j of
        Inl e \<Rightarrow> Inl ValidationError
      | Inr s \<Rightarrow> (case validate_list lax js of
                   Inl e \<Rightarrow> Inl ValidationError
                 | Inr ss \<Rightarrow> Inr (s # ss)))"

text \<open>
  \<^verbatim>\<open>SimulationIndex(**index_data)\<close>: \<^verbatim>\<open>**\<close> on anything but a mapping is a
  \<^verbatim>\<open>TypeError\<close>; the field \<^verbatim>\<open>simulations\<close> must be a list whose elements validate.
\<close>

fun validate_SimulationIndex :: "(json \<Rightarrow> int option) \<Rightarrow> json \<Rightarrow> error + SimulationIndex" where
  "validate_SimulationIndex lax (JObj kvs) =
     (case map_of kvs ''simulations'' of
        Some (JArr js) \<Rightarrow>
          (case validate_list lax js of
             Inl e \<Rightarrow> Inl e
           | Inr ss \<Rightarrow> Inr \<lparr>simulations = ss\<rparr>)
      | other \<Rightarrow> Inl ValidationError)"
| "validate_SimulationIndex lax other = Inl TypeError"

text \<open>
  \<^verbatim>\<open>load_index\<close>: \<^verbatim>\<open>open("index.json", "r")\<close> raises when there is no such file,
  \<^verbatim>\<open>json.load\<close> raises on text that is not JSON, and the constructor raises as above.
  Nothing is caught.
\<close>

definition load_index :: "'a env \<Rightarrow> world \<Rightarrow> error + SimulationIndex" where
  "load_index env w =
     (case files w (Path ''index.json'') of
        None \<Rightarrow> Inl FileNotFoundError
      | Some (Image fig) \<Rightarrow> Inl JSONDecodeError
      | Some (Bytes text) \<Rightarrow>
          (case json_loads env text of
             Inl e \<Rightarrow> Inl e
           | Inr index_data \<Rightarrow> validate_SimulationIndex (lax_int env) index_data))"

section \<open>\<^verbatim>\<open>load_output_data\<close>\<close>

text \<open>
  \<^verbatim>\<open>pl.read_csv(path, has_header=False)\<close>: the columns the parser finds are named
  \<^verbatim>\<open>column_1\<close>, \<^verbatim>\<open>column_2\<close>, ... by position. An empty input has no columns and raises
  \<^verbatim>\<open>NoDataError\<close>; all columns of a frame have one length.
\<close>

definition column_name :: "nat \<Rightarrow> string" where
  "column_name i = ''column_'' @ string_of_nat i"

definition read_csv :: "'a env \<Rightarrow> world \<Rightarrow> string \<Rightarrow> error + 'a DataFrame" where
  "read_csv env w source =
     (case files w (Path source) of
        None \<Rightarrow> Inl FileNotFoundError
      | Some (Image fig) \<Rightarrow> Inl ComputeError
      | Some (Bytes text) \<Rightarrow>
          (case parse_csv env text of
             Inl e \<Rightarrow> Inl e
           | Inr cols \<Rightarrow>
               if cols = [] then Inl NoDataError
               else if \<exists>c \<in> set cols. length c \<noteq> length (hd cols) then Inl ComputeError
               else Inr (zip (map column_name [1 ..< Suc (length cols)]) cols)))"

text \<open>
  \<^verbatim>\<open>df.rename(mapping)\<close>: every key of the mapping must be a column of the frame (else
  \<^verbatim>\<open>ColumnNotFoundError\<close>); each column named by a key gets the new name, every other column
  keeps its name, and no column is added, dropped or moved; a frame cannot have two
  columns of one name.
\<close>

definition rename :: "(string \<times> string) list \<Rightarrow> 'a DataFrame \<Rightarrow> error + 'a DataFrame" where
  "rename mapping df =
     (case find (\<lambda>k. k \<notin> set (map fst df)) (map fst mapping) of
        Some k \<Rightarrow> Inl (ColumnNotFoundError k)
      | None \<Rightarrow>
          (let df' = map (\<lambda>(n, c). (case map_of mapping n of Some n' \<Rightarrow> n' | None \<Rightarrow> n, c)) df
           in if distinct (map fst df') then Inr df' else Inl DuplicateError))"

definition load_output_data :: "'a env \<Rightarrow> world \<Rightarrow> Simulation \<Rightarrow> error + 'a DataFrame" where
  "load_output_data env w simulation =
     ebind (read_csv env w (output_path simulation)) (\<lambda>df.
       case output_type simulation of
         TRAJECTORY \<Rightarrow>
           rename [(''column_1'', ''x''), (''column_2'', ''y''), (''column_3'', ''z'')] df)"

section \<open>\<^verbatim>\<open>run_simulation\<close>\<close>

text \<open>
  The parameter \<^verbatim>\<open>output_path\<close> of the script's functions is written \<open>out_path\<close>
  here, the name being taken by the field of \<^verbatim>\<open>Simulation\<close>.
  \<^verbatim>\<open>open(output_path, "w")\<close> raises when the path cannot be opened for writing; otherwise
  it creates or truncates the file and gives a file object, which the \<^verbatim>\<open>with\<close> statement
  closes on every way out of its body. The child gets the file as its standard output,
  so what it writes is the file's content; Python itself writes nothing to it.
  \<^verbatim>\<open>check=True\<close> raises \<^verbatim>\<open>CalledProcessError\<close> on a non-zero exit status.
\<close>

definition open_w :: "'a env \<Rightarrow> path \<Rightarrow> world \<Rightarrow> error + world" where
  "open_w env p w =
     (if writable env p
      then Inr (w\<lparr>files := (files w)(p \<mapsto> Bytes []), open_files := p # open_files w\<rparr>)
      else Inl OSError)"

definition close :: "path \<Rightarrow> world \<Rightarrow> world" where
  "close p w = w\<lparr>open_files := remove1 p (open_files w)\<rparr>"

definition subprocess_run :: "'a env \<Rightarrow> string list \<Rightarrow> path \<Rightarrow> world \<Rightarrow> (error + unit) \<times> world" where
  "subprocess_run env argv stdout w =
     (case spawn env argv of
        NotLaunched \<Rightarrow> (Inl FileNotFoundError, w)
      | Exited out rc \<Rightarrow>
          (let w' = w\<lparr>files := (files w)(stdout \<mapsto> Bytes out), processes := processes w @ [argv]\<rparr>
           in (if rc \<noteq> 0 then Inl (CalledProcessError rc) else Inr (), w')))"

definition run_simulation ::
  "'a env \<Rightarrow> Simulation \<Rightarrow> string \<Rightarrow> path \<Rightarrow> world \<Rightarrow> (error + unit) \<times> world" where
  "run_simulation env simulation binary_path out_path w =
     (case open_w env out_path w of
        Inl e \<Rightarrow> (Inl e, w)
      | Inr w1 \<Rightarrow>
          (let (r, w2) = subprocess_run env
                  [binary_path, ''run'', ''--target'', entrypoint simulation] out_path w1
           in (r, close out_path w2)))"


section \<open>\<^verbatim>\<open>plot_trajectory\<close>\<close>

subsection \<open>The arithmetic of numpy\<close>

text \<open>
  The largest finite \<^verbatim>\<open>float64\<close>. An operation on finite floats gives the exact result
  rounded; a rounded result beyond the range is an infinity.
\<close>

definition float_max :: rat where
  "float_max = (2 ^ 53 - 1) * 2 ^ 971"

definition fl :: "'a env \<Rightarrow> rat \<Rightarrow> f64" where
  "fl env q =
     (if float_max < round64 env q then PosInf
      else if round64 env q < - float_max then NegInf
      else Finite (round64 env q))"

fun fneg :: "f64 \<Rightarrow> f64" where
  "fneg (Finite a) = Finite (- a)"
| "fneg PosInf = NegInf"
| "fneg NegInf = PosInf"
| "fneg NaN = NaN"

text \<open>
  Addition: NaN when an operand is NaN or the operands are the two infinities, an
  infinity when one operand is, the rounded sum otherwise. Subtraction adds the negation.
\<close>

fun fadd :: "'a env \<Rightarrow> f64 \<Rightarrow> f64 \<Rightarrow> f64" where
  "fadd env (Finite a) (Finite b) = fl env (a + b)"
| "fadd env NaN b = NaN"
| "fadd env a NaN = NaN"
| "fadd env PosInf NegInf = NaN"
| "fadd env NegInf PosInf = NaN"
| "fadd env PosInf b = PosInf"
| "fadd env NegInf b = NegInf"
| "fadd env (Finite a) PosInf = PosInf"
| "fadd env (Finite a) NegInf = NegInf"

definition fsub :: "'a env \<Rightarrow> f64 \<Rightarrow> f64 \<Rightarrow> f64" where
  "fsub env a b = fadd env a (fneg b)"

text \<open>\<^verbatim>\<open>x / 2.0\<close> and \<^verbatim>\<open>x * 0.5\<close> on a float: both are the rounded half.\<close>

fun fdiv_2 :: "'a env \<Rightarrow> f64 \<Rightarrow> f64" where
  "fdiv_2 env (Finite a) = fl env (a / 2)"
| "fdiv_2 env other = other"

fun fmul_half :: "'a env \<Rightarrow> f64 \<Rightarrow> f64" where
  "fmul_half env (Finite a) = fl env (a * (1 / 2))"
| "fmul_half env other = other"

text \<open>
  The order of the floats that are not NaN, and the larger and the smaller of two
  floats as \<^verbatim>\<open>max\<close> and \<^verbatim>\<open>min\<close> of an array take them: NaN when one of the two is NaN.
\<close>

fun fle :: "f64 \<Rightarrow> f64 \<Rightarrow> bool" where
  "fle (Finite a) (Finite b) = (a \<le> b)"
| "fle NegInf b = True"
| "fle a PosInf = True"
| "fle a b = False"

definition fmax2 :: "f64 \<Rightarrow> f64 \<Rightarrow> f64" where
  "fmax2 a b = (if a = NaN \<or> b = NaN then NaN else if fle a b then b else a)"

definition fmin2 :: "f64 \<Rightarrow> f64 \<Rightarrow> f64" where
  "fmin2 a b = (if a = NaN \<or> b = NaN then NaN else if fle a b then a else b)"

text \<open>The conversion of \<^verbatim>\<open>int64\<close> to \<^verbatim>\<open>float64\<close>, and the wrap-around of \<^verbatim>\<open>int64\<close>.\<close>

definition wrap64 :: "int \<Rightarrow> int" where
  "wrap64 i = (i + 2 ^ 63) mod 2 ^ 64 - 2 ^ 63"

fun to_f64 :: "'a env \<Rightarrow> scalar \<Rightarrow> f64" where
  "to_f64 env (I64 i) = fl env (of_int i)"
| "to_f64 env (F64 f) = f"

text \<open>
  \<^verbatim>\<open>a - b\<close> and \<^verbatim>\<open>a + b\<close> on two scalars: in \<^verbatim>\<open>int64\<close> when both are, in
  \<^verbatim>\<open>float64\<close> otherwise.
\<close>

fun ssub :: "'a env \<Rightarrow> scalar \<Rightarrow> scalar \<Rightarrow> scalar" where
  "ssub env (I64 a) (I64 b) = I64 (wrap64 (a - b))"
| "ssub env a b = F64 (fsub env (to_f64 env a) (to_f64 env b))"

fun sadd :: "'a env \<Rightarrow> scalar \<Rightarrow> scalar \<Rightarrow> scalar" where
  "sadd env (I64 a) (I64 b) = I64 (wrap64 (a + b))"
| "sadd env a b = F64 (fadd env (to_f64 env a) (to_f64 env b))"

text \<open>
  \<^verbatim>\<open>np.array([a, b, c]).max()\<close>: the array of three scalars is an \<^verbatim>\<open>int64\<close> array when
  all three are \<^verbatim>\<open>int64\<close>, a \<^verbatim>\<open>float64\<close> array otherwise.
\<close>

fun np_array_max :: "'a env \<Rightarrow> scalar \<Rightarrow> scalar \<Rightarrow> scalar \<Rightarrow> scalar" where
  "np_array_max env (I64 a) (I64 b) (I64 c) = I64 (max a (max b c))"
| "np_array_max env a b c =
     F64 (fmax2 (to_f64 env a) (fmax2 (to_f64 env b) (to_f64 env c)))"

subsection \<open>Columns and arrays\<close>

text \<open>
  \<^verbatim>\<open>df["x"]\<close> raises when the frame has no such column. \<^verbatim>\<open>.to_numpy()\<close> of a column
  of integers without \<^verbatim>\<open>null\<close> is an \<^verbatim>\<open>int64\<close> array; of any other numeric column it
  is a \<^verbatim>\<open>float64\<close> array, \<^verbatim>\<open>null\<close> becoming NaN.
\<close>

definition get_column :: "'a DataFrame \<Rightarrow> string \<Rightarrow> error + 'a list" where
  "get_column df c =
     (case map_of df c of None \<Rightarrow> Inl (ColumnNotFoundError c) | Some vs \<Rightarrow> Inr vs)"

fun is_int_cell :: "cell \<Rightarrow> bool" where
  "is_int_cell (IntCell i) = True"
| "is_int_cell other = False"

fun int_of_cell :: "cell \<Rightarrow> int" where
  "int_of_cell (IntCell i) = i"
| "int_of_cell other = 0"

fun f64_of_cell :: "'a env \<Rightarrow> cell \<Rightarrow> f64" where
  "f64_of_cell env Null = NaN"
| "f64_of_cell env (IntCell i) = fl env (of_int i)"
| "f64_of_cell env (FloatCell f) = f"

definition to_numpy :: "'a env \<Rightarrow> cell list \<Rightarrow> ndarray" where
  "to_numpy env cs =
     (if list_all is_int_cell cs then Int64Array (map int_of_cell cs)
      else Float64Array (map (f64_of_cell env) cs))"

fun items :: "ndarray \<Rightarrow> scalar list" where
  "items (Int64Array is) = map I64 is"
| "items (Float64Array fs) = map F64 fs"

text \<open>
  \<^verbatim>\<open>xs[i]\<close> on an array raises \<^verbatim>\<open>IndexError\<close> out of range, a negative index counting
  from the end; \<^verbatim>\<open>xs.max()\<close> and \<^verbatim>\<open>xs.min()\<close> raise \<^verbatim>\<open>ValueError\<close> on an array of
  size zero.
\<close>

definition getitem :: "'a list \<Rightarrow> int \<Rightarrow> error + 'a" where
  "getitem xs i =
     (if 0 \<le> i \<and> i < int (length xs) then Inr (xs ! nat i)
      else if i < 0 \<and> - int (length xs) \<le> i then Inr (xs ! nat (int (length xs) + i))
      else Inl IndexError)"

fun np_max :: "ndarray \<Rightarrow> error + scalar" where
  "np_max (Int64Array []) = Inl (ValueError ''zero-size array to reduction operation maximum'')"
| "np_max (Float64Array []) = Inl (ValueError ''zero-size array to reduction operation maximum'')"
| "np_max (Int64Array (x # xs)) = Inr (I64 (fold max xs x))"
| "np_max (Float64Array (x # xs)) = Inr (F64 (fold fmax2 xs x))"

fun np_min :: "ndarray \<Rightarrow> error + scalar" where
  "np_min (Int64Array []) = Inl (ValueError ''zero-size array to reduction operation minimum'')"
| "np_min (Float64Array []) = Inl (ValueError ''zero-size array to reduction operation minimum'')"
| "np_min (Int64Array (x # xs)) = Inr (I64 (fold min xs x))"
| "np_min (Float64Array (x # xs)) = Inr (F64 (fold fmin2 xs x))"

subsection \<open>The limits of the axes\<close>

text \<open>\<^verbatim>\<open>xs.max() - xs.min()\<close> and \<^verbatim>\<open>(xs.max() + xs.min()) * 0.5\<close>.\<close>

definition span :: "'a env \<Rightarrow> ndarray \<Rightarrow> error + scalar" where
  "span env xs = ebind (np_max xs) (\<lambda>hi. ebind (np_min xs) (\<lambda>lo. Inr (ssub env hi lo)))"

definition mid :: "'a env \<Rightarrow> ndarray \<Rightarrow> error + f64" where
  "mid env xs =
     ebind (np_max xs) (\<lambda>hi. ebind (np_min xs) (\<lambda>lo.
       Inr (fmul_half env (to_f64 env (sadd env hi lo)))))"

text \<open>
  \<^verbatim>\<open>max_range\<close>: the largest of the three spans (the \<^verbatim>\<open>.max()\<close> of the array of the
  three), divided by \<^verbatim>\<open>2.0\<close>.
\<close>

definition max_range :: "'a env \<Rightarrow> ndarray \<Rightarrow> ndarray \<Rightarrow> ndarray \<Rightarrow> error + f64" where
  "max_range env xs ys zs =
     ebind (span env xs) (\<lambda>sx. ebind (span env ys) (\<lambda>sy. ebind (span env zs) (\<lambda>sz.
       Inr (fdiv_2 env (to_f64 env (np_array_max env sx sy sz))))))"

text \<open>
  \<^verbatim>\<open>ax.set_xlim(lo, hi)\<close>, and the same for the other axes: matplotlib raises
  \<^verbatim>\<open>ValueError\<close> when a limit is NaN or infinite.
\<close>

fun is_finite :: "f64 \<Rightarrow> bool" where
  "is_finite (Finite a) = True"
| "is_finite other = False"

definition set_lim :: "f64 \<Rightarrow> f64 \<Rightarrow> error + f64 \<times> f64" where
  "set_lim lo hi =
     (if is_finite lo \<and> is_finite hi then Inr (lo, hi)
      else Inl (ValueError ''Axis limits cannot be NaN or Inf''))"

text \<open>
  The body of \<^verbatim>\<open>plot_trajectory\<close> up to \<^verbatim>\<open>plt.savefig\<close>, in the order of the source:
  the three columns as arrays, the line (matplotlib refuses coordinate arrays of
  different lengths), the start marker from index \<^verbatim>\<open>0\<close>, the end marker from index
  \<^verbatim>\<open>-1\<close>, the labels, \<^verbatim>\<open>max_range\<close>, the three midpoints, and the limits of each axis.
\<close>

definition trajectory_figure :: "'a env \<Rightarrow> cell DataFrame \<Rightarrow> error + figure" where
  "trajectory_figure env df =
     ebind (get_column df ''x'') (\<lambda>cx.
     ebind (get_column df ''y'') (\<lambda>cy.
     ebind (get_column df ''z'') (\<lambda>cz.
     let xs = to_numpy env cx; ys = to_numpy env cy; zs = to_numpy env cz in
     if length (items ys) \<noteq> length (items xs) \<or> length (items zs) \<noteq> length (items xs)
     then Inl (ValueError ''x, y and z must have the same length'')
     else
     ebind (getitem (items xs) 0) (\<lambda>x0.
     ebind (getitem (items ys) 0) (\<lambda>y0.
     ebind (getitem (items zs) 0) (\<lambda>z0.
     ebind (getitem (items xs) (- 1)) (\<lambda>x1.
     ebind (getitem (items ys) (- 1)) (\<lambda>y1.
     ebind (getitem (items zs) (- 1)) (\<lambda>z1.
     ebind (max_range env xs ys zs) (\<lambda>max_range.
     ebind (mid env xs) (\<lambda>mid_x.
     ebind (mid env ys) (\<lambda>mid_y.
     ebind (mid env zs) (\<lambda>mid_z.
     ebind (set_lim (fsub env mid_x max_range) (fadd env mid_x max_range)) (\<lambda>lim_x.
     ebind (set_lim (fsub env mid_y max_range) (fadd env mid_y max_range)) (\<lambda>lim_y.
     ebind (set_lim (fsub env mid_z max_range) (fadd env mid_z max_range)) (\<lambda>lim_z.
       Inr \<lparr>line = (xs, ys, zs),
            start_marker = (x0, y0, z0),
            end_marker = (x1, y1, z1),
            xlabel = ''X Position (m)'',
            ylabel = ''Y Position (m)'',
            zlabel = ''Z Position (m)'',
            xlim = lim_x,
            ylim = lim_y,
            zlim = lim_z\<rparr>))))))))))))))))"

text \<open>\<^verbatim>\<open>plt.savefig(output_path)\<close> writes the image, or raises when it cannot.\<close>

definition savefig :: "'a env \<Rightarrow> figure \<Rightarrow> path \<Rightarrow> world \<Rightarrow> (error + unit) \<times> world" where
  "savefig env fig p w =
     (if writable env p then (Inr (), w\<lparr>files := (files w)(p \<mapsto> Image fig)\<rparr>)
      else (Inl OSError, w))"

definition plot_trajectory ::
  "'a env \<Rightarrow> cell DataFrame \<Rightarrow> path \<Rightarrow> world \<Rightarrow> (error + unit) \<times> world" where
  "plot_trajectory env df out_path w =
     (case trajectory_figure env df of
        Inl e \<Rightarrow> (Inl e, w)
      | Inr fig \<Rightarrow> savefig env fig out_path w)"

section \<open>\<^verbatim>\<open>main\<close>\<close>

text \<open>
  The parsed command line. The attribute \<^verbatim>\<open>args.simulation_id\<close> is the field
  \<open>args_simulation_id\<close>, the plain name being the field of \<^verbatim>\<open>Simulation\<close>.
\<close>

record args =
  args_simulation_id :: string
  fpm_binary_path :: string
  output_dir :: string

text \<open>
  The two paths of \<^verbatim>\<open>main\<close>, each \<^verbatim>\<open>Path(args.output_dir) / f"..."\<close> with
  \<^verbatim>\<open>int(start_ts)\<close> formatted in decimal.
\<close>

definition log_file_path :: "args \<Rightarrow> rat \<Rightarrow> path" where
  "log_file_path args start_ts =
     Slash (Path (output_dir args))
       (args_simulation_id args @ ''_'' @ string_of_int (py_int start_ts) @ ''.log'')"

definition plot_path :: "args \<Rightarrow> rat \<Rightarrow> path" where
  "plot_path args start_ts =
     Slash (Path (output_dir args))
       (args_simulation_id args @ ''_'' @ string_of_int (py_int start_ts) @ ''.png'')"

definition not_found_message :: "string \<Rightarrow> string" where
  "not_found_message sid = ''Simulation '' @ [CHR 0x27] @ sid @ [CHR 0x27] @ '' not found.''"

definition main :: "cell env \<Rightarrow> args \<Rightarrow> world \<Rightarrow> (error + unit) \<times> world" where
  "main env args w =
     (let bound = [(''simulation_id'', LStr (args_simulation_id args))] in
      case load_index env w of
        Inl e \<Rightarrow> (Inl e, w)
      | Inr index \<Rightarrow>
          (case get_simulation index (args_simulation_id args) of
             None \<Rightarrow>
               (Inl (ValueError (not_found_message (args_simulation_id args))),
                log_emit bound Error ''Simulation with provided id not found.'' [] w)
           | Some simulation \<Rightarrow>
               (let (start_ts, w1) = now env w;
                    w2 = log_emit bound Info ''Running simulation.'' [] w1;
                    (r, w3) = run_simulation env simulation (fpm_binary_path args)
                                (log_file_path args start_ts) w2
                in case r of
                     Inl e \<Rightarrow> (Inl e, w3)
                   | Inr u \<Rightarrow>
                       (let (end_ts, w4) = now env w3;
                            w5 = log_emit bound Info ''Simulation finished.''
                                   [(''duration_seconds'', LNum (py_round2 (end_ts - start_ts))),
                                    (''log_file'', LStr (path_name (log_file_path args start_ts)))]
                                   w4
                        in case load_output_data env w5 simulation of
                             Inl e \<Rightarrow> (Inl e, w5)
                           | Inr df \<Rightarrow>
                               (case output_type simulation of
                                  TRAJECTORY \<Rightarrow>
                                    (let (r', w6) =
                                           plot_trajectory env df (plot_path args start_ts) w5
                                     in case r' of
                                          Inl e \<Rightarrow> (Inl e, w6)
                                        | Inr u \<Rightarrow>
                                            (Inr (),
                                             log_emit bound Info ''Plot saved.''
                                               [(''path'',
                                                 LStr (path_name (plot_path args start_ts)))]
                                               w6)))))))"


section \<open>Notions used in the statements\<close>

text \<open>
  Reading a decimal numeral back, to show that \<open>string_of_nat\<close> never gives one text for
  two numbers.
\<close>

definition digit_val :: "char \<Rightarrow> nat" where
  "digit_val c = of_char c - 48"

definition nat_of_digits :: "string \<Rightarrow> nat" where
  "nat_of_digits s = foldl (\<lambda>a c. 10 * a + digit_val c) 0 s"

text \<open>The name a column has after the renaming of \<^verbatim>\<open>load_output_data\<close>.\<close>

definition new_name :: "string \<Rightarrow> string" where
  "new_name n =
     (case map_of [(''column_1'', ''x''), (''column_2'', ''y''), (''column_3'', ''z'')] n of
        Some n' \<Rightarrow> n' | None \<Rightarrow> n)"

text \<open>
  A table of \<open>R\<close> rows, given by its columns: there is a column, and every column has
  \<open>R\<close> values.
\<close>

definition table :: "'a list list \<Rightarrow> nat \<Rightarrow> bool" where
  "table cols R \<longleftrightarrow> cols \<noteq> [] \<and> (\<forall>c \<in> set cols. length c = R)"

text \<open>
  The element of a column's array at a row: the cell of that row, as \<^verbatim>\<open>int64\<close> in a
  column of integers, as \<^verbatim>\<open>float64\<close> otherwise.
\<close>

definition value_at :: "'a env \<Rightarrow> cell list \<Rightarrow> nat \<Rightarrow> scalar" where
  "value_at env cs i =
     (if list_all is_int_cell cs then I64 (int_of_cell (cs ! i))
      else F64 (f64_of_cell env (cs ! i)))"

text \<open>
  The maximum and the minimum of an array as numbers: of integers the greatest and the
  least; of floats NaN when the array holds a NaN, and otherwise an element that no
  element exceeds, or that exceeds none.
\<close>

definition is_max :: "ndarray \<Rightarrow> scalar \<Rightarrow> bool" where
  "is_max a h =
     (case a of
        Int64Array is \<Rightarrow> h = I64 (Max (set is))
      | Float64Array fs \<Rightarrow>
          if NaN \<in> set fs then h = F64 NaN
          else \<exists>f \<in> set fs. h = F64 f \<and> (\<forall>g \<in> set fs. fle g f))"

definition is_min :: "ndarray \<Rightarrow> scalar \<Rightarrow> bool" where
  "is_min a l =
     (case a of
        Int64Array is \<Rightarrow> l = I64 (Min (set is))
      | Float64Array fs \<Rightarrow>
          if NaN \<in> set fs then l = F64 NaN
          else \<exists>f \<in> set fs. l = F64 f \<and> (\<forall>g \<in> set fs. fle f g))"

text \<open>All six limits handed to the axes are finite: no call of \<^verbatim>\<open>set_*lim\<close> raises.\<close>

definition limits_finite :: "'a env \<Rightarrow> f64 \<Rightarrow> f64 \<Rightarrow> f64 \<Rightarrow> f64 \<Rightarrow> bool" where
  "limits_finite env r mx my mz \<longleftrightarrow>
     is_finite (fsub env mx r) \<and> is_finite (fadd env mx r) \<and>
     is_finite (fsub env my r) \<and> is_finite (fadd env my r) \<and>
     is_finite (fsub env mz r) \<and> is_finite (fadd env mz r)"


text \<open>
  The index file as the specification describes it: a top-level object whose key
  \<^verbatim>\<open>simulations\<close> holds an array of descriptor objects, the identifier under the key
  \<^verbatim>\<open>id\<close>.
\<close>

definition spec_descriptor_object :: "Simulation \<Rightarrow> json" where
  "spec_descriptor_object s =
     JObj [(''id'', JStr (simulation_id s)),
           (''name'', JStr (name s)),
           (''entrypoint'', JStr (entrypoint s)),
           (''output_type'', (case output_type s of TRAJECTORY \<Rightarrow> JStr ''trajectory'')),
           (''output_path'', JStr (output_path s)),
           (''dimensions'', JInt (dimensions s)),
           (''description'', JStr (description s))]"

definition spec_index_document :: "Simulation list \<Rightarrow> json" where
  "spec_index_document ss = JObj [(''simulations'', JArr (map spec_descriptor_object ss))]"

text \<open>The field constraints of a descriptor: the four constrained strings are non-empty.\<close>

definition field_constraints :: "Simulation \<Rightarrow> bool" where
  "field_constraints s \<longleftrightarrow>
     simulation_id s \<noteq> [] \<and> name s \<noteq> [] \<and> entrypoint s \<noteq> [] \<and> output_path s \<noteq> []"

text \<open>
  A record of the file that violates them: one of the four strings is empty, or the
  value of \<^verbatim>\<open>output_type\<close> is a string that is no member of the enum.
\<close>

definition violates_constraints :: "json \<Rightarrow> bool" where
  "violates_constraints j =
     (case j of
        JObj kvs \<Rightarrow>
          map_of kvs ''id'' = Some (JStr []) \<or>
          map_of kvs ''name'' = Some (JStr []) \<or>
          map_of kvs ''entrypoint'' = Some (JStr []) \<or>
          map_of kvs ''output_path'' = Some (JStr []) \<or>
          (case map_of kvs ''output_type'' of
             Some (JStr t) \<Rightarrow> t \<noteq> ''trajectory''
           | other \<Rightarrow> False)
      | other \<Rightarrow> False)"

section \<open>Concrete inputs\<close>

definition sim_orbit1 :: Simulation where
  "sim_orbit1 =
     \<lparr>simulation_id = ''orbit1'', name = ''Orbit'', entrypoint = ''orbit'',
      output_type = TRAJECTORY, output_path = ''output/orbit1.csv'',
      dimensions = 3, description = []\<rparr>"

definition sim_orbit1_again :: Simulation where
  "sim_orbit1_again =
     \<lparr>simulation_id = ''orbit1'', name = ''Second orbit'', entrypoint = ''orbit2'',
      output_type = TRAJECTORY, output_path = ''output/orbit2.csv'',
      dimensions = 3, description = ''same id''\<rparr>"

definition sim_pendulum :: Simulation where
  "sim_pendulum =
     \<lparr>simulation_id = ''pendulum'', name = ''Pendulum'', entrypoint = ''pendulum'',
      output_type = TRAJECTORY, output_path = ''output/pendulum.csv'',
      dimensions = 3, description = ''a pendulum''\<rparr>"

definition index3 :: SimulationIndex where
  "index3 = \<lparr>simulations = [sim_pendulum, sim_orbit1, sim_orbit1_again]\<rparr>"


text \<open>
  An environment and worlds to run the script in. The parsers are given on the few
  texts used; the directory \<^verbatim>\<open>output\<close> exists and nothing else can be written; the
  binary \<^verbatim>\<open>fpm\<close> knows two targets, one of which fails after some output.
\<close>

definition env0 :: "rat env" where
  "env0 =
     \<lparr>json_loads = (\<lambda>t.
        if t = ''index'' then Inr (spec_index_document [sim_pendulum, sim_orbit1])
        else if t = ''empty name'' then
          Inr (JObj [(''simulations'',
                 JArr [spec_descriptor_object sim_pendulum,
                       spec_descriptor_object (sim_orbit1\<lparr>name := []\<rparr>)])])
        else Inl JSONDecodeError),
      lax_int = (\<lambda>j. None),
      parse_csv = (\<lambda>t.
        if t = ''three columns'' then Inr [[0, 1, 2], [0, 1, 0], [0, 1, 2]]
        else if t = ''four columns'' then Inr [[1], [2], [3], [4]]
        else if t = ''two columns'' then Inr [[1, 2], [3, 4]]
        else if t = ''one row'' then Inr [[5], [6], [7]]
        else Inl ComputeError),
      writable = (\<lambda>p. case p of Slash d n \<Rightarrow> d = Path ''output'' | Path s \<Rightarrow> False),
      spawn = (\<lambda>argv.
        if argv = [''fpm'', ''run'', ''--target'', ''orbit''] then Exited ''0,0,0'' 0
        else if argv = [''fpm'', ''run'', ''--target'', ''pendulum''] then Exited ''partial'' 2
        else NotLaunched),
      clock = (\<lambda>n. 1700000000 + of_nat n * 3 / 2),
      round64 = (\<lambda>q. q)\<rparr>"

text \<open>
  The same environment for tables of cells. The texts name an integer table of the
  triples (0,0,0), (1,1,1), (2,0,2), a table of one row, and two float tables whose
  values are about \<^verbatim>\<open>8.98846567431158e307\<close>, that is \<open>2 ^ 1023\<close>.
\<close>

definition env1 :: "cell env" where
  "env1 =
     \<lparr>json_loads = json_loads env0,
      lax_int = lax_int env0,
      parse_csv = (\<lambda>t.
        if t = ''three columns'' then
          Inr [[IntCell 0, IntCell 1, IntCell 2],
               [IntCell 0, IntCell 1, IntCell 0],
               [IntCell 0, IntCell 1, IntCell 2]]
        else if t = ''one row'' then Inr [[IntCell 5], [IntCell 6], [IntCell 7]]
        else if t = ''huge row'' then
          Inr [[FloatCell (Finite (2 ^ 1023))], [FloatCell (Finite 0)], [FloatCell (Finite 0)]]
        else if t = ''huge span'' then
          Inr [[FloatCell (Finite (- (2 ^ 1023))), FloatCell (Finite (2 ^ 1023))],
               [FloatCell (Finite 0), FloatCell (Finite 0)],
               [FloatCell (Finite 0), FloatCell (Finite 0)]]
        else Inl ComputeError),
      writable = writable env0,
      spawn = spawn env0,
      clock = clock env0,
      round64 = (\<lambda>q. q)\<rparr>"

definition world_of :: "string \<Rightarrow> string \<Rightarrow> world" where
  "world_of index_text csv_text =
     \<lparr>files = [Path ''index.json'' \<mapsto> Bytes index_text,
               Path ''output/orbit1.csv'' \<mapsto> Bytes csv_text,
               Path ''output/pendulum.csv'' \<mapsto> Bytes csv_text],
      open_files = [], processes = [], log_records = [], ticks = 0\<rparr>"

definition world_empty :: world where
  "world_empty =
     \<lparr>files = Map.empty, open_files = [], processes = [], log_records = [], ticks = 0\<rparr>"

definition args_of :: "string \<Rightarrow> string \<Rightarrow> args" where
  "args_of sid binary =
     \<lparr>args_simulation_id = sid, fpm_binary_path = binary, output_dir = ''output''\<rparr>"


section \<open>Index lookup\<close>

lemma get_simulation_loop_None:
  "get_simulation_loop xs sid = None \<longleftrightarrow> (\<forall>s \<in> set xs. simulation_id s \<noteq> sid)"
  by (induction xs) auto

lemma get_simulation_loop_first:
  "\<forall>s \<in> set pre. simulation_id s \<noteq> sid \<Longrightarrow> simulation_id d = sid \<Longrightarrow>
   get_simulation_loop (pre @ d # post) sid = Some d"
  by (induction pre) auto

text \<open>
  Claim C1. For every index and every query id, \<^verbatim>\<open>get_simulation\<close> returns the first
  descriptor of the list whose \<^verbatim>\<open>simulation_id\<close> equals the query (the descriptor that
  has no match before it), and it returns \<^verbatim>\<open>None\<close> exactly when no descriptor of the
  index has that id; in particular on the empty index.
\<close>

theorem get_simulation_first_match:
  "(\<forall>pre d post.
       simulations index = pre @ d # post \<and> simulation_id d = sid \<and>
       (\<forall>s \<in> set pre. simulation_id s \<noteq> sid)
       \<longrightarrow> get_simulation index sid = Some d)
   \<and> (get_simulation index sid = None
        \<longleftrightarrow> (\<forall>s \<in> set (simulations index). simulation_id s \<noteq> sid))
   \<and> get_simulation \<lparr>simulations = []\<rparr> sid = None"
  by (simp add: get_simulation_def get_simulation_loop_None get_simulation_loop_first)

theorem get_simulation_first_match_witness:
  "get_simulation index3 ''orbit1'' = Some sim_orbit1
   \<and> get_simulation index3 ''lorenz'' = None"
proof -
  have pre: "\<forall>s \<in> set [sim_pendulum]. simulation_id s \<noteq> ''orbit1''"
    by (simp add: sim_pendulum_def)
  have split: "simulations index3 = [sim_pendulum] @ sim_orbit1 # [sim_orbit1_again]"
    by (simp add: index3_def)
  have sid: "simulation_id sim_orbit1 = ''orbit1''"
    by (simp add: sim_orbit1_def)
  have absent: "\<forall>s \<in> set (simulations index3). simulation_id s \<noteq> ''lorenz''"
    by (simp add: index3_def sim_pendulum_def sim_orbit1_def sim_orbit1_again_def)
  from get_simulation_first_match [of index3 "''orbit1''"] split sid pre
  have "get_simulation index3 ''orbit1'' = Some sim_orbit1" by blast
  moreover from get_simulation_first_match [of index3 "''lorenz''"] absent
  have "get_simulation index3 ''lorenz'' = None" by blast
  ultimately show ?thesis by simp
qed

section \<open>Loading the output table\<close>

subsection \<open>Column names\<close>

lemma digit_val_digit_char: "d < 10 \<Longrightarrow> digit_val (digit_char d) = d"
proof -
  assume "d < 10"
  then have "d \<in> {0,1,2,3,4,5,6,7,8,9}" by auto
  then show ?thesis
    by (auto simp: digit_val_def digit_char_def)
qed

lemma nat_of_digits_snoc: "nat_of_digits (s @ [c]) = 10 * nat_of_digits s + digit_val c"
  by (simp add: nat_of_digits_def)

lemma nat_of_digits_string_of_nat: "nat_of_digits (string_of_nat n) = n"
proof (induction n rule: string_of_nat.induct)
  case (1 n)
  show ?case
  proof (cases "n < 10")
    case True
    then show ?thesis
      using digit_val_digit_char [of n]
      by (simp add: string_of_nat.simps [of n] nat_of_digits_def)
  next
    case False
    then have "nat_of_digits (string_of_nat (n div 10)) = n div 10"
      using "1.IH" by simp
    then show ?thesis
      using False digit_val_digit_char [of "n mod 10"]
      by (simp add: string_of_nat.simps [of n] nat_of_digits_snoc)
  qed
qed

lemma string_of_nat_inj: "string_of_nat m = string_of_nat n \<longleftrightarrow> m = n"
  by (metis nat_of_digits_string_of_nat)

lemma column_name_inj: "column_name i = column_name j \<longleftrightarrow> i = j"
  by (simp add: column_name_def string_of_nat_inj)


lemma column_name_literals:
  "column_name 1 = ''column_1''" "column_name 2 = ''column_2''" "column_name 3 = ''column_3''"
  "column_name (Suc 0) = ''column_1''"
  by (simp_all add: column_name_def string_of_nat.simps digit_char_def)

lemma column_name_not_xyz:
  "column_name i \<noteq> ''x''" "column_name i \<noteq> ''y''" "column_name i \<noteq> ''z''"
  by (simp_all add: column_name_def)

lemma new_name_low:
  "new_name (column_name (Suc 0)) = ''x''" "new_name (column_name 2) = ''y''"
  "new_name (column_name 3) = ''z''"
  by (simp_all add: new_name_def column_name_literals)

lemma new_name_high: "4 \<le> i \<Longrightarrow> new_name (column_name i) = column_name i"
proof -
  assume h: "4 \<le> i"
  have "column_name i \<noteq> column_name 1" "column_name i \<noteq> column_name 2"
    "column_name i \<noteq> column_name 3"
    using h by (simp_all add: column_name_inj)
  then show ?thesis
    by (simp add: new_name_def column_name_literals)
qed

lemma upt_from_1: "3 \<le> n \<Longrightarrow> [1 ..< Suc n] = Suc 0 # 2 # 3 # [4 ..< Suc n]"
  by (simp add: upt_conv_Cons numeral_eq_Suc)

lemma renamed_names:
  assumes "3 \<le> n"
  shows "map new_name (map column_name [1 ..< Suc n])
         = ''x'' # ''y'' # ''z'' # map column_name [4 ..< Suc n]"
  unfolding upt_from_1 [OF assms]
  by (simp add: new_name_low new_name_high del: upt_Suc)

lemma distinct_renamed: "distinct (''x'' # ''y'' # ''z'' # map column_name [4 ..< Suc n])"
proof -
  have "distinct (map column_name [4 ..< Suc n])"
    by (simp add: distinct_map inj_on_def column_name_inj del: upt_Suc)
  moreover have "\<And>s. s \<in> set (map column_name [4 ..< Suc n]) \<Longrightarrow> s \<noteq> ''x'' \<and> s \<noteq> ''y'' \<and> s \<noteq> ''z''"
    using column_name_not_xyz by (auto simp del: upt_Suc)
  ultimately show ?thesis by (auto simp del: upt_Suc)
qed

lemma rename_columns:
  assumes "length cols = n" and "3 \<le> n"
  shows "rename [(''column_1'', ''x''), (''column_2'', ''y''), (''column_3'', ''z'')]
           (zip (map column_name [1 ..< Suc n]) cols)
         = Inr (zip (''x'' # ''y'' # ''z'' # map column_name [4 ..< Suc n]) cols)"
proof -
  let ?names = "map column_name [1 ..< Suc n]"
  let ?df = "zip ?names cols"
  have fst_df: "map fst ?df = ?names"
    using assms(1) by (simp del: upt_Suc)
  have "set ?names = {column_name (Suc 0), column_name 2, column_name 3}
                       \<union> set (map column_name [4 ..< Suc n])"
    unfolding upt_from_1 [OF assms(2)] by (simp del: upt_Suc)
  then have mem: "''column_1'' \<in> set ?names" "''column_2'' \<in> set ?names"
    "''column_3'' \<in> set ?names"
    by (simp_all add: column_name_literals del: upt_Suc set_map)
  have found: "find (\<lambda>k. k \<notin> set (map fst ?df))
                 (map fst [(''column_1'', ''x''), (''column_2'', ''y''), (''column_3'', ''z'')]) = None"
    unfolding fst_df using mem by (simp add: find_None_iff del: upt_Suc set_map)
  have mapped: "map (\<lambda>(n, c). (case map_of [(''column_1'', ''x''), (''column_2'', ''y''),
                    (''column_3'', ''z'')] n of Some n' \<Rightarrow> n' | None \<Rightarrow> n, c)) ?df
                = zip (map new_name ?names) cols"
    unfolding zip_map1 new_name_def ..
  have names': "map new_name ?names = ''x'' # ''y'' # ''z'' # map column_name [4 ..< Suc n]"
    using assms(2) by (rule renamed_names)
  have "length (''x'' # ''y'' # ''z'' # map column_name [4 ..< Suc n]) = length cols"
    using assms by (simp del: upt_Suc)
  then have fst': "map fst (zip (''x'' # ''y'' # ''z'' # map column_name [4 ..< Suc n]) cols)
              = ''x'' # ''y'' # ''z'' # map column_name [4 ..< Suc n]"
    by (rule map_fst_zip)
  show ?thesis
    unfolding rename_def found mapped names'
    using distinct_renamed [of n] by (simp only: fst' Let_def option.case if_True)
qed


lemma column_name_4: "column_name 4 = ''column_4''"
  by (simp add: column_name_def string_of_nat.simps digit_char_def)

lemma rename_short:
  assumes "length cols = n" and "0 < n" and "n < 3"
  shows "\<exists>k. rename [(''column_1'', ''x''), (''column_2'', ''y''), (''column_3'', ''z'')]
           (zip (map column_name [1 ..< Suc n]) cols) = Inl (ColumnNotFoundError k)"
proof -
  from assms(2,3) consider "n = 1" | "n = 2" by linarith
  then show ?thesis
  proof cases
    case 1
    with assms(1) obtain c where "cols = [c]"
      by (cases cols) auto
    with 1 show ?thesis
      by (simp add: rename_def column_name_literals)
  next
    case 2
    with assms(1) obtain c d where c: "cols = [c, d]"
      by (cases cols; cases "tl cols") auto
    have u: "[1 ..< Suc 2] = [Suc 0, 2]"
      by (simp add: upt_conv_Cons)
    show ?thesis
      unfolding 2 c u by (simp add: rename_def column_name_literals)
  qed
qed

lemma table_hd: "table cols R \<Longrightarrow> \<not> (\<exists>c \<in> set cols. length c \<noteq> length (hd cols))"
  by (cases cols) (auto simp: table_def)

lemma read_csv_parsed:
  assumes "files w (Path source) = Some (Bytes raw)" and "parse_csv env raw = Inr cols"
  shows "read_csv env w source =
           (if cols = [] then Inl NoDataError
            else if \<exists>c \<in> set cols. length c \<noteq> length (hd cols) then Inl ComputeError
            else Inr (zip (map column_name [1 ..< Suc (length cols)]) cols))"
  by (simp only: read_csv_def assms option.case content.case sum.case)

lemma read_csv_table:
  assumes "files w (Path source) = Some (Bytes raw)" and "parse_csv env raw = Inr cols"
    and "table cols R"
  shows "read_csv env w source = Inr (zip (map column_name [1 ..< Suc (length cols)]) cols)"
proof -
  have ne: "cols \<noteq> []" using assms(3) by (simp add: table_def)
  show ?thesis
    unfolding read_csv_parsed [OF assms(1,2)]
    by (simp only: ne table_hd [OF assms(3)] if_False)
qed

lemma read_csv_Inr:
  assumes "read_csv env w source = Inr df"
  shows "\<exists>raw cols. files w (Path source) = Some (Bytes raw) \<and> parse_csv env raw = Inr cols
           \<and> table cols (length (hd cols))
           \<and> df = zip (map column_name [1 ..< Suc (length cols)]) cols"
proof (cases "files w (Path source)")
  case None
  with assms show ?thesis by (simp add: read_csv_def)
next
  case (Some c)
  show ?thesis
  proof (cases c)
    case (Image fig)
    with Some assms show ?thesis by (simp add: read_csv_def)
  next
    case (Bytes raw)
    show ?thesis
    proof (cases "parse_csv env raw")
      case (Inl e)
      with Some Bytes assms show ?thesis by (simp add: read_csv_def)
    next
      case (Inr cols)
      have f: "files w (Path source) = Some (Bytes raw)"
        using Some Bytes by simp
      note r = read_csv_parsed [OF f Inr]
      have ne: "cols \<noteq> []"
      proof
        assume "cols = []"
        with r assms show False by simp
      qed
      have eq: "\<not> (\<exists>c \<in> set cols. length c \<noteq> length (hd cols))"
      proof
        assume a: "\<exists>c \<in> set cols. length c \<noteq> length (hd cols)"
        have "read_csv env w source = Inl ComputeError"
          unfolding r by (simp only: ne a if_False if_True)
        with assms show False by simp
      qed
      have "read_csv env w source = Inr (zip (map column_name [1 ..< Suc (length cols)]) cols)"
        unfolding r by (simp only: ne eq if_False)
      with assms have "df = zip (map column_name [1 ..< Suc (length cols)]) cols"
        by (simp del: upt_Suc)
      moreover have "table cols (length (hd cols))"
        unfolding table_def using ne eq by blast
      ultimately show ?thesis
        using f Inr by blast
    qed
  qed
qed

lemma load_output_data_wide:
  assumes "files w (Path (output_path simulation)) = Some (Bytes raw)"
    and "parse_csv env raw = Inr cols" and "table cols R" and "3 \<le> length cols"
  shows "load_output_data env w simulation
         = Inr (zip (''x'' # ''y'' # ''z'' # map column_name [4 ..< Suc (length cols)]) cols)"
proof -
  have "output_type simulation = TRAJECTORY"
    by (cases "output_type simulation") simp
  then show ?thesis
    using read_csv_table [OF assms(1,2,3)] rename_columns [OF refl assms(4)]
    by (simp add: load_output_data_def ebind_def del: upt_Suc)
qed

lemma load_output_data_narrow:
  assumes "files w (Path (output_path simulation)) = Some (Bytes raw)"
    and "parse_csv env raw = Inr cols" and "table cols R" and "length cols < 3"
  shows "\<exists>k. load_output_data env w simulation = Inl (ColumnNotFoundError k)"
proof -
  have ty: "output_type simulation = TRAJECTORY"
    by (cases "output_type simulation") simp
  have "0 < length cols" using assms(3) by (simp add: table_def)
  from rename_short [OF refl this assms(4)] show ?thesis
    using read_csv_table [OF assms(1,2,3)] ty
    by (simp add: load_output_data_def ebind_def del: upt_Suc)
qed

lemma load_output_data_Inr:
  assumes "load_output_data env w simulation = Inr df"
  shows "\<exists>raw cols. files w (Path (output_path simulation)) = Some (Bytes raw)
           \<and> parse_csv env raw = Inr cols \<and> table cols (length (hd cols)) \<and> 3 \<le> length cols
           \<and> df = zip (''x'' # ''y'' # ''z'' # map column_name [4 ..< Suc (length cols)]) cols"
proof -
  from assms obtain df0 where r: "read_csv env w (output_path simulation) = Inr df0"
    by (cases "read_csv env w (output_path simulation)")
       (simp_all add: load_output_data_def ebind_def)
  from read_csv_Inr [OF r] obtain raw cols where
    f: "files w (Path (output_path simulation)) = Some (Bytes raw)"
    and p: "parse_csv env raw = Inr cols" and t: "table cols (length (hd cols))"
    by blast
  have n: "3 \<le> length cols"
  proof (rule ccontr)
    assume "\<not> 3 \<le> length cols"
    then have "length cols < 3" by simp
    from load_output_data_narrow [OF f p t this] obtain k where
      "load_output_data env w simulation = Inl (ColumnNotFoundError k)" ..
    with assms show False by simp
  qed
  have "df = zip (''x'' # ''y'' # ''z'' # map column_name [4 ..< Suc (length cols)]) cols"
    using load_output_data_wide [OF f p t n] assms by (simp del: upt_Suc)
  with f p t n show ?thesis by blast
qed

text \<open>
  Claim C3. For a table of three columns and \<open>R\<close> rows at the descriptor's
  \<^verbatim>\<open>output_path\<close>, \<^verbatim>\<open>load_output_data\<close> returns a frame whose columns are named
  \<^verbatim>\<open>x\<close>, \<^verbatim>\<open>y\<close>, \<^verbatim>\<open>z\<close> in that order, each of length \<open>R\<close>, and whose values are
  the values of the input, column by column and row by row.
\<close>

theorem load_output_data_three_columns:
  assumes "files w (Path (output_path simulation)) = Some (Bytes raw)"
    and "parse_csv env raw = Inr [c1, c2, c3]"
    and "length c1 = R" and "length c2 = R" and "length c3 = R"
  shows "\<exists>df. load_output_data env w simulation = Inr df
           \<and> map fst df = [''x'', ''y'', ''z'']
           \<and> map snd df = [c1, c2, c3]
           \<and> (\<forall>c \<in> set (map snd df). length c = R)"
proof -
  have t: "table [c1, c2, c3] R"
    using assms(3-5) by (simp add: table_def)
  have "load_output_data env w simulation = Inr [(''x'', c1), (''y'', c2), (''z'', c3)]"
    using load_output_data_wide [OF assms(1,2) t] by simp
  then show ?thesis
    using assms(3-5) by simp
qed

theorem load_output_data_three_columns_witness:
  "\<exists>df. load_output_data env0 (world_of ''index'' ''three columns'') sim_orbit1 = Inr df
      \<and> map fst df = [''x'', ''y'', ''z'']
      \<and> map snd df = [[0, 1, 2], [0, 1, 0], [0, 1, 2]]
      \<and> (\<forall>c \<in> set (map snd df). length c = 3)"
proof -
  have f: "files (world_of ''index'' ''three columns'') (Path (output_path sim_orbit1))
           = Some (Bytes ''three columns'')"
    by (simp add: world_of_def sim_orbit1_def)
  have p: "parse_csv env0 ''three columns'' = Inr [[0, 1, 2], [0, 1, 0], [0, 1, 2]]"
    by (simp add: env0_def)
  show ?thesis
    by (rule load_output_data_three_columns [OF f p]) simp_all
qed

text \<open>
  Claim C5, as stated, fails: a parseable file of four columns gives a frame of four
  columns, the fourth keeping its positional name.
\<close>

theorem load_output_data_four_columns_counterexample:
  "load_output_data env0 (world_of ''index'' ''four columns'') sim_orbit1
   = Inr [(''x'', [1]), (''y'', [2]), (''z'', [3]), (''column_4'', [4])]"
proof -
  have f: "files (world_of ''index'' ''four columns'') (Path (output_path sim_orbit1))
           = Some (Bytes ''four columns'')"
    by (simp add: world_of_def sim_orbit1_def)
  have p: "parse_csv env0 ''four columns'' = Inr [[1], [2], [3], [4]]"
    by (simp add: env0_def)
  have t: "table [[1], [2], [3], [4 :: rat]] 1"
    by (simp add: table_def)
  have g: "3 \<le> length [[1], [2], [3], [4 :: rat]]"
    by simp
  have l: "length [[1], [2], [3], [4 :: rat]] = 4"
    by simp
  have u: "[4 ..< Suc 4] = [4]"
    by (simp add: upt_conv_Cons)
  show ?thesis
    using load_output_data_wide [OF f p t g, unfolded l u] by (simp add: column_name_4)
qed

text \<open>
  Claim C5, amended. For every parseable input whose table has at least three columns,
  the frame returned has as many columns as the input and the input's values; the first
  three columns are named \<^verbatim>\<open>x\<close>, \<^verbatim>\<open>y\<close>, \<^verbatim>\<open>z\<close> and every further column keeps its
  positional name \<^verbatim>\<open>column_4\<close>, \<^verbatim>\<open>column_5\<close>, ...; so the frame has exactly the three
  columns \<^verbatim>\<open>x\<close>, \<^verbatim>\<open>y\<close>, \<^verbatim>\<open>z\<close> exactly when the input has three columns.
\<close>

theorem load_output_data_columns:
  assumes "files w (Path (output_path simulation)) = Some (Bytes raw)"
    and "parse_csv env raw = Inr cols" and "table cols R" and "3 \<le> length cols"
  shows "\<exists>df. load_output_data env w simulation = Inr df
           \<and> length df = length cols
           \<and> map fst df = ''x'' # ''y'' # ''z'' # map column_name [4 ..< Suc (length cols)]
           \<and> map snd df = cols
           \<and> (map fst df = [''x'', ''y'', ''z''] \<longleftrightarrow> length cols = 3)"
proof -
  let ?names = "''x'' # ''y'' # ''z'' # map column_name [4 ..< Suc (length cols)]"
  have len: "length ?names = length cols"
    using assms(4) by (simp del: upt_Suc)
  have "(?names = [''x'', ''y'', ''z'']) \<longleftrightarrow> length cols = 3"
    using assms(4) by (auto simp del: upt_Suc)
  then show ?thesis
    using load_output_data_wide [OF assms] len
    by (simp del: upt_Suc)
qed

theorem load_output_data_columns_witness:
  "\<exists>df. load_output_data env0 (world_of ''index'' ''four columns'') sim_orbit1 = Inr df
      \<and> length df = 4
      \<and> map fst df = [''x'', ''y'', ''z'', ''column_4'']
      \<and> map snd df = [[1], [2], [3], [4]]"
proof -
  have f: "files (world_of ''index'' ''four columns'') (Path (output_path sim_orbit1))
           = Some (Bytes ''four columns'')"
    by (simp add: world_of_def sim_orbit1_def)
  have p: "parse_csv env0 ''four columns'' = Inr [[1], [2], [3], [4]]"
    by (simp add: env0_def)
  have t: "table [[1], [2], [3], [4 :: rat]] 1"
    by (simp add: table_def)
  have g: "3 \<le> length [[1], [2], [3], [4 :: rat]]"
    by simp
  have l: "length [[1], [2], [3], [4 :: rat]] = 4"
    by simp
  have u: "[4 ..< Suc 4] = [4]"
    by (simp add: upt_conv_Cons)
  from load_output_data_columns [OF f p t g, unfolded l u] obtain df where
    r: "load_output_data env0 (world_of ''index'' ''four columns'') sim_orbit1 = Inr df"
    and n: "length df = 4"
    and c: "map fst df = ''x'' # ''y'' # ''z'' # map column_name [4]"
    and v: "map snd df = [[1], [2], [3], [4]]"
    by (elim exE conjE) (rule that)
  from c have "map fst df = [''x'', ''y'', ''z'', ''column_4'']"
    by (simp add: column_name_4)
  with r n v show ?thesis
    by (intro exI [of _ df] conjI)
qed

text \<open>
  Claim C10. When the input parses to a table of fewer than three columns, the renaming
  fails with a column-not-found error; so every frame that \<^verbatim>\<open>load_output_data\<close> returns
  has at least three columns, the first three named \<^verbatim>\<open>x\<close>, \<^verbatim>\<open>y\<close>, \<^verbatim>\<open>z\<close>.
\<close>

theorem load_output_data_needs_three_columns:
  "(\<forall>raw cols R.
       files w (Path (output_path simulation)) = Some (Bytes raw) \<and>
       parse_csv env raw = Inr cols \<and> table cols R \<and> length cols < 3
       \<longrightarrow> (\<exists>k. load_output_data env w simulation = Inl (ColumnNotFoundError k)))
   \<and> (\<forall>df. load_output_data env w simulation = Inr df
         \<longrightarrow> 3 \<le> length df \<and> map fst (take 3 df) = [''x'', ''y'', ''z''])"
proof (intro conjI allI impI)
  fix raw cols R
  assume "files w (Path (output_path simulation)) = Some (Bytes raw) \<and>
       parse_csv env raw = Inr cols \<and> table cols R \<and> length cols < 3"
  then show "\<exists>k. load_output_data env w simulation = Inl (ColumnNotFoundError k)"
    using load_output_data_narrow by blast
next
  fix df
  assume "load_output_data env w simulation = Inr df"
  from load_output_data_Inr [OF this] obtain cols where
    n: "3 \<le> length cols" and
    df: "df = zip (''x'' # ''y'' # ''z'' # map column_name [4 ..< Suc (length cols)]) cols"
    by blast
  from n obtain a b c rest where cols: "cols = a # b # c # rest"
    by (cases cols; cases "tl cols"; cases "tl (tl cols)") auto
  show "3 \<le> length df"
    unfolding df cols by (simp del: upt_Suc)
  show "map fst (take 3 df) = [''x'', ''y'', ''z'']"
    unfolding df cols by (simp del: upt_Suc)
qed

theorem load_output_data_needs_three_columns_witness:
  "(\<exists>k. load_output_data env0 (world_of ''index'' ''two columns'') sim_orbit1
          = Inl (ColumnNotFoundError k))
   \<and> (\<exists>df. load_output_data env0 (world_of ''index'' ''one row'') sim_orbit1 = Inr df
          \<and> 3 \<le> length df \<and> map fst (take 3 df) = [''x'', ''y'', ''z''])"
proof -
  have f2: "files (world_of ''index'' ''two columns'') (Path (output_path sim_orbit1))
            = Some (Bytes ''two columns'')"
    by (simp add: world_of_def sim_orbit1_def)
  have p2: "parse_csv env0 ''two columns'' = Inr [[1, 2], [3, 4]]"
    by (simp add: env0_def)
  have t2: "table [[1, 2], [3, 4 :: rat]] 2"
    by (simp add: table_def)
  have short: "length [[1, 2], [3, 4 :: rat]] < 3"
    by simp
  have a: "\<exists>k. load_output_data env0 (world_of ''index'' ''two columns'') sim_orbit1
               = Inl (ColumnNotFoundError k)"
    using load_output_data_needs_three_columns
            [of "world_of ''index'' ''two columns''" sim_orbit1 env0]
          f2 p2 t2 short
    by blast
  have f1: "files (world_of ''index'' ''one row'') (Path (output_path sim_orbit1))
            = Some (Bytes ''one row'')"
    by (simp add: world_of_def sim_orbit1_def)
  have p1: "parse_csv env0 ''one row'' = Inr [[5], [6], [7]]"
    by (simp add: env0_def)
  have t1: "table [[5], [6], [7 :: rat]] 1"
    by (simp add: table_def)
  have r: "load_output_data env0 (world_of ''index'' ''one row'') sim_orbit1
           = Inr [(''x'', [5]), (''y'', [6]), (''z'', [7])]"
    using load_output_data_wide [OF f1 p1 t1] by simp
  have b: "3 \<le> length [(''x'', [5 :: rat]), (''y'', [6]), (''z'', [7])]
           \<and> map fst (take 3 [(''x'', [5 :: rat]), (''y'', [6]), (''z'', [7])])
             = [''x'', ''y'', ''z'']"
    using load_output_data_needs_three_columns
            [of "world_of ''index'' ''one row''" sim_orbit1 env0] r
    by blast
  from a r b show ?thesis by simp
qed

section \<open>Running the simulation\<close>

lemma run_simulation_unwritable:
  assumes "\<not> writable env p"
  shows "run_simulation env simulation binary_path p w = (Inl OSError, w)"
  using assms by (simp add: run_simulation_def open_w_def)

lemma run_simulation_not_launched:
  assumes "writable env p"
    and "spawn env [binary_path, ''run'', ''--target'', entrypoint simulation] = NotLaunched"
  shows "run_simulation env simulation binary_path p w
         = (Inl FileNotFoundError, w\<lparr>files := (files w)(p \<mapsto> Bytes [])\<rparr>)"
  using assms by (simp add: run_simulation_def open_w_def subprocess_run_def close_def)

lemma run_simulation_exited:
  assumes "writable env p"
    and "spawn env [binary_path, ''run'', ''--target'', entrypoint simulation] = Exited out rc"
  shows "run_simulation env simulation binary_path p w
         = (if rc \<noteq> 0 then Inl (CalledProcessError rc) else Inr (),
            w\<lparr>files := (files w)(p \<mapsto> Bytes out),
              processes := processes w
                @ [[binary_path, ''run'', ''--target'', entrypoint simulation]]\<rparr>)"
  using assms
  by (simp add: run_simulation_def open_w_def subprocess_run_def close_def Let_def)

text \<open>
  Claim C2, as stated, fails: when the binary cannot be started, \<^verbatim>\<open>run_simulation\<close>
  raises although no child process has exited with a non-zero status.
\<close>

theorem run_simulation_raises_without_child_counterexample:
  "fst (run_simulation env0 sim_orbit1 ''missing''
          (Slash (Path ''output'') ''orbit1_1700000000.log'') world_empty)
     = Inl FileNotFoundError
   \<and> spawn env0 [''missing'', ''run'', ''--target'', entrypoint sim_orbit1] = NotLaunched"
proof -
  have s: "spawn env0 [''missing'', ''run'', ''--target'', entrypoint sim_orbit1] = NotLaunched"
    by (simp add: env0_def sim_orbit1_def)
  have wr: "writable env0 (Slash (Path ''output'') ''orbit1_1700000000.log'')"
    by (simp add: env0_def)
  show ?thesis
    using run_simulation_not_launched [OF wr s] s by simp
qed

text \<open>
  Claim C2, amended. When \<^verbatim>\<open>output_path\<close> can be opened for writing and the child
  process is started, \<^verbatim>\<open>run_simulation\<close> raises if and only if the child exits with a
  non-zero status; in both cases the file at \<^verbatim>\<open>output_path\<close> then holds exactly the
  bytes the child wrote to its standard output, and the file object is closed before the
  function returns or raises. It raises as well when the path cannot be opened (nothing
  is changed) and when the binary cannot be started (the file is left empty, and
  closed).
\<close>

theorem run_simulation_outcome:
  "(writable env p \<and>
      spawn env [binary_path, ''run'', ''--target'', entrypoint simulation] = Exited out rc
    \<longrightarrow> (isl (fst (run_simulation env simulation binary_path p w)) \<longleftrightarrow> rc \<noteq> 0)
        \<and> files (snd (run_simulation env simulation binary_path p w)) p = Some (Bytes out)
        \<and> open_files (snd (run_simulation env simulation binary_path p w)) = open_files w)
   \<and> (writable env p \<and>
      spawn env [binary_path, ''run'', ''--target'', entrypoint simulation] = NotLaunched
    \<longrightarrow> fst (run_simulation env simulation binary_path p w) = Inl FileNotFoundError
        \<and> files (snd (run_simulation env simulation binary_path p w)) p = Some (Bytes [])
        \<and> open_files (snd (run_simulation env simulation binary_path p w)) = open_files w)
   \<and> (\<not> writable env p
    \<longrightarrow> run_simulation env simulation binary_path p w = (Inl OSError, w))"
proof (intro conjI impI)
  assume a: "writable env p \<and>
      spawn env [binary_path, ''run'', ''--target'', entrypoint simulation] = Exited out rc"
  then have r: "run_simulation env simulation binary_path p w
         = (if rc \<noteq> 0 then Inl (CalledProcessError rc) else Inr (),
            w\<lparr>files := (files w)(p \<mapsto> Bytes out),
              processes := processes w
                @ [[binary_path, ''run'', ''--target'', entrypoint simulation]]\<rparr>)"
    using run_simulation_exited by blast
  show "isl (fst (run_simulation env simulation binary_path p w)) \<longleftrightarrow> rc \<noteq> 0"
    unfolding r by simp
  show "files (snd (run_simulation env simulation binary_path p w)) p = Some (Bytes out)"
    unfolding r by simp
  show "open_files (snd (run_simulation env simulation binary_path p w)) = open_files w"
    unfolding r by simp
next
  assume a: "writable env p \<and>
      spawn env [binary_path, ''run'', ''--target'', entrypoint simulation] = NotLaunched"
  then have r: "run_simulation env simulation binary_path p w
         = (Inl FileNotFoundError, w\<lparr>files := (files w)(p \<mapsto> Bytes [])\<rparr>)"
    using run_simulation_not_launched by blast
  show "fst (run_simulation env simulation binary_path p w) = Inl FileNotFoundError"
    unfolding r by simp
  show "files (snd (run_simulation env simulation binary_path p w)) p = Some (Bytes [])"
    unfolding r by simp
  show "open_files (snd (run_simulation env simulation binary_path p w)) = open_files w"
    unfolding r by simp
next
  assume "\<not> writable env p"
  then show "run_simulation env simulation binary_path p w = (Inl OSError, w)"
    by (rule run_simulation_unwritable)
qed

theorem run_simulation_outcome_witness:
  "\<not> isl (fst (run_simulation env0 sim_orbit1 ''fpm''
              (Slash (Path ''output'') ''orbit1_1700000000.log'') world_empty))
   \<and> files (snd (run_simulation env0 sim_orbit1 ''fpm''
              (Slash (Path ''output'') ''orbit1_1700000000.log'') world_empty))
        (Slash (Path ''output'') ''orbit1_1700000000.log'') = Some (Bytes ''0,0,0'')
   \<and> isl (fst (run_simulation env0 sim_pendulum ''fpm''
              (Slash (Path ''output'') ''pendulum_1700000000.log'') world_empty))
   \<and> files (snd (run_simulation env0 sim_pendulum ''fpm''
              (Slash (Path ''output'') ''pendulum_1700000000.log'') world_empty))
        (Slash (Path ''output'') ''pendulum_1700000000.log'') = Some (Bytes ''partial'')
   \<and> open_files (snd (run_simulation env0 sim_pendulum ''fpm''
              (Slash (Path ''output'') ''pendulum_1700000000.log'') world_empty)) = []
   \<and> fst (run_simulation env0 sim_orbit1 ''missing''
              (Slash (Path ''output'') ''orbit1_1700000000.log'') world_empty)
        = Inl FileNotFoundError
   \<and> run_simulation env0 sim_orbit1 ''fpm'' (Path ''orbit1_1700000000.log'') world_empty
        = (Inl OSError, world_empty)"
proof -
  let ?p = "Slash (Path ''output'') ''orbit1_1700000000.log''"
  let ?q = "Slash (Path ''output'') ''pendulum_1700000000.log''"
  have wp: "writable env0 ?p" and wq: "writable env0 ?q"
    and nw: "\<not> writable env0 (Path ''orbit1_1700000000.log'')"
    by (simp_all add: env0_def)
  have s0: "spawn env0 [''fpm'', ''run'', ''--target'', entrypoint sim_orbit1]
            = Exited ''0,0,0'' 0"
    by (simp add: env0_def sim_orbit1_def)
  have s2: "spawn env0 [''fpm'', ''run'', ''--target'', entrypoint sim_pendulum]
            = Exited ''partial'' 2"
    by (simp add: env0_def sim_pendulum_def)
  have sn: "spawn env0 [''missing'', ''run'', ''--target'', entrypoint sim_orbit1]
            = NotLaunched"
    by (simp add: env0_def sim_orbit1_def)
  have e: "open_files world_empty = []"
    by (simp add: world_empty_def)
  note a = run_simulation_outcome [of env0 ?p "''fpm''" sim_orbit1 "''0,0,0''" 0 world_empty,
              THEN conjunct1, rule_format, OF conjI [OF wp s0]]
  note b = run_simulation_outcome [of env0 ?q "''fpm''" sim_pendulum "''partial''" 2 world_empty,
              THEN conjunct1, rule_format, OF conjI [OF wq s2]]
  note c = run_simulation_outcome [of env0 ?p "''missing''" sim_orbit1 _ _ world_empty,
              THEN conjunct2, THEN conjunct1, rule_format, OF conjI [OF wp sn]]
  note d = run_simulation_outcome [of env0 "Path ''orbit1_1700000000.log''" "''fpm''"
              sim_orbit1 _ _ world_empty,
              THEN conjunct2, THEN conjunct2, rule_format, OF nw]
  from a b c d e show ?thesis by simp
qed

section \<open>Loading the index\<close>

lemma validate_Simulation_roundtrip:
  assumes "field_constraints s"
  shows "validate_Simulation lax (spec_descriptor_object s) = Inr s"
proof -
  have ty: "output_type s = TRAJECTORY"
    by (cases "output_type s") simp
  have ne: "\<not> length (simulation_id s) < 1" "\<not> length (name s) < 1"
    "\<not> length (entrypoint s) < 1" "\<not> length (output_path s) < 1"
    using assms by (simp_all add: field_constraints_def)
  have "validate_Simulation lax (spec_descriptor_object s)
        = Inr \<lparr>simulation_id = simulation_id s, name = name s, entrypoint = entrypoint s,
               output_type = TRAJECTORY, output_path = output_path s,
               dimensions = dimensions s, description = description s\<rparr>"
    using ne by (simp add: spec_descriptor_object_def ebind_def ty)
  also have "\<dots> = Inr s"
    using ty by (cases s) simp
  finally show ?thesis .
qed

lemma validate_list_roundtrip:
  "\<forall>s \<in> set ss. field_constraints s \<Longrightarrow>
   validate_list lax (map spec_descriptor_object ss) = Inr ss"
  by (induction ss) (simp_all add: validate_Simulation_roundtrip)

lemma validate_Simulation_violation:
  assumes "violates_constraints j"
  shows "\<exists>e. validate_Simulation lax j = Inl e"
proof (cases j)
  case (JObj kvs)
  let ?a = "str_field 1 (map_of kvs ''id'')"
  let ?b = "str_field 1 (map_of kvs ''name'')"
  let ?c = "str_field 1 (map_of kvs ''entrypoint'')"
  let ?d = "enum_field (map_of kvs ''output_type'')"
  let ?e = "str_field 1 (map_of kvs ''output_path'')"
  from assms JObj have "isl ?a \<or> isl ?b \<or> isl ?c \<or> isl ?d \<or> isl ?e"
    by (auto simp: violates_constraints_def split: option.splits json.splits)
  then have "isl (validate_Simulation lax (JObj kvs))"
    unfolding validate_Simulation.simps ebind_def
    by (cases ?a; cases ?b; cases ?c; cases ?d; cases ?e) simp_all
  with JObj show ?thesis
    by (cases "validate_Simulation lax j") simp_all
qed (use assms in \<open>simp_all add: violates_constraints_def\<close>)

lemma validate_list_violation:
  "\<exists>j \<in> set js. violates_constraints j \<Longrightarrow> validate_list lax js = Inl ValidationError"
proof (induction js)
  case Nil
  then show ?case by simp
next
  case (Cons j js)
  show ?case
  proof (cases "violates_constraints j")
    case True
    from validate_Simulation_violation [OF this, of lax] show ?thesis
      by auto
  next
    case False
    with Cons.prems have "\<exists>j \<in> set js. violates_constraints j" by simp
    then have "validate_list lax js = Inl ValidationError" by (rule Cons.IH)
    then show ?thesis
      by (cases "validate_Simulation lax j") simp_all
  qed
qed

lemma load_index_parsed:
  assumes "files w (Path ''index.json'') = Some (Bytes raw)"
    and "json_loads env raw = Inr index_data"
  shows "load_index env w = validate_SimulationIndex (lax_int env) index_data"
  using assms by (simp add: load_index_def)

lemma load_index_roundtrip:
  assumes "files w (Path ''index.json'') = Some (Bytes raw)"
    and "json_loads env raw = Inr (spec_index_document ss)"
    and "\<forall>s \<in> set ss. field_constraints s"
  shows "load_index env w = Inr \<lparr>simulations = ss\<rparr>"
  unfolding load_index_parsed [OF assms(1,2)]
  by (simp add: spec_index_document_def validate_list_roundtrip [OF assms(3)])

text \<open>
  Claim C6. Loading a well-formed index file, an object whose array \<^verbatim>\<open>simulations\<close>
  holds \<open>N\<close> descriptor objects that meet the field constraints, yields the index of
  these \<open>N\<close> descriptors, field for field, the key \<^verbatim>\<open>id\<close> giving \<^verbatim>\<open>simulation_id\<close>.
  \<^verbatim>\<open>load_index\<close> fails when the file is missing, when it is not JSON, and when a record
  of the array has an empty constrained string or an unknown \<^verbatim>\<open>output_type\<close>.
\<close>

theorem load_index_roundtrip_and_failures:
  "(\<forall>raw ss.
       files w (Path ''index.json'') = Some (Bytes raw) \<and>
       json_loads env raw = Inr (spec_index_document ss) \<and>
       (\<forall>s \<in> set ss. field_constraints s)
       \<longrightarrow> load_index env w = Inr \<lparr>simulations = ss\<rparr>
           \<and> length (simulations \<lparr>simulations = ss\<rparr>) = length ss)
   \<and> (files w (Path ''index.json'') = None \<longrightarrow> load_index env w = Inl FileNotFoundError)
   \<and> (\<forall>raw e.
       files w (Path ''index.json'') = Some (Bytes raw) \<and> json_loads env raw = Inl e
       \<longrightarrow> load_index env w = Inl e)
   \<and> (\<forall>raw kvs js.
       files w (Path ''index.json'') = Some (Bytes raw) \<and>
       json_loads env raw = Inr (JObj kvs) \<and>
       map_of kvs ''simulations'' = Some (JArr js) \<and>
       (\<exists>j \<in> set js. violates_constraints j)
       \<longrightarrow> load_index env w = Inl ValidationError)"
proof (intro conjI allI impI)
  fix raw ss
  assume "files w (Path ''index.json'') = Some (Bytes raw) \<and>
       json_loads env raw = Inr (spec_index_document ss) \<and>
       (\<forall>s \<in> set ss. field_constraints s)"
  then show "load_index env w = Inr \<lparr>simulations = ss\<rparr>"
    using load_index_roundtrip by blast
  show "length (simulations \<lparr>simulations = ss\<rparr>) = length ss"
    by simp
next
  assume "files w (Path ''index.json'') = None"
  then show "load_index env w = Inl FileNotFoundError"
    by (simp add: load_index_def)
next
  fix raw e
  assume "files w (Path ''index.json'') = Some (Bytes raw) \<and> json_loads env raw = Inl e"
  then show "load_index env w = Inl e"
    by (simp add: load_index_def)
next
  fix raw kvs js
  assume a: "files w (Path ''index.json'') = Some (Bytes raw) \<and>
       json_loads env raw = Inr (JObj kvs) \<and>
       map_of kvs ''simulations'' = Some (JArr js) \<and>
       (\<exists>j \<in> set js. violates_constraints j)"
  then have "validate_list (lax_int env) js = Inl ValidationError"
    using validate_list_violation by blast
  with a show "load_index env w = Inl ValidationError"
    by (simp add: load_index_def)
qed

theorem load_index_roundtrip_and_failures_witness:
  "load_index env0 (world_of ''index'' ''three columns'')
     = Inr \<lparr>simulations = [sim_pendulum, sim_orbit1]\<rparr>
   \<and> load_index env0 world_empty = Inl FileNotFoundError
   \<and> load_index env0 (world_of ''{'' ''three columns'') = Inl JSONDecodeError
   \<and> load_index env0 (world_of ''empty name'' ''three columns'') = Inl ValidationError"
proof -
  have f: "\<And>t. files (world_of t ''three columns'') (Path ''index.json'') = Some (Bytes t)"
    by (simp add: world_of_def)
  have j1: "json_loads env0 ''index'' = Inr (spec_index_document [sim_pendulum, sim_orbit1])"
    by (simp add: env0_def)
  have c1: "\<forall>s \<in> set [sim_pendulum, sim_orbit1]. field_constraints s"
    by (simp add: field_constraints_def sim_pendulum_def sim_orbit1_def)
  have a: "load_index env0 (world_of ''index'' ''three columns'')
           = Inr \<lparr>simulations = [sim_pendulum, sim_orbit1]\<rparr>"
    using load_index_roundtrip_and_failures
            [of "world_of ''index'' ''three columns''" env0,
             THEN conjunct1, rule_format, OF conjI [OF f conjI [OF j1 c1]]]
    by (rule conjunct1)
  have n: "files world_empty (Path ''index.json'') = None"
    by (simp add: world_empty_def)
  have b: "load_index env0 world_empty = Inl FileNotFoundError"
    using load_index_roundtrip_and_failures
            [of world_empty env0, THEN conjunct2, THEN conjunct1, rule_format, OF n] .
  have j3: "json_loads env0 ''{'' = Inl JSONDecodeError"
    by (simp add: env0_def)
  have c: "load_index env0 (world_of ''{'' ''three columns'') = Inl JSONDecodeError"
    using load_index_roundtrip_and_failures
            [of "world_of ''{'' ''three columns''" env0,
             THEN conjunct2, THEN conjunct2, THEN conjunct1, rule_format,
             OF conjI [OF f j3]] .
  let ?js = "[spec_descriptor_object sim_pendulum,
              spec_descriptor_object (sim_orbit1\<lparr>name := []\<rparr>)]"
  have j4: "json_loads env0 ''empty name'' = Inr (JObj [(''simulations'', JArr ?js)])"
    by (simp add: env0_def)
  have m: "map_of [(''simulations'', JArr ?js)] ''simulations'' = Some (JArr ?js)"
    by simp
  have "violates_constraints (spec_descriptor_object (sim_orbit1\<lparr>name := []\<rparr>))"
    by (simp add: violates_constraints_def spec_descriptor_object_def)
  then have v: "\<exists>j \<in> set ?js. violates_constraints j"
    by simp
  have d: "load_index env0 (world_of ''empty name'' ''three columns'') = Inl ValidationError"
    using load_index_roundtrip_and_failures
            [of "world_of ''empty name'' ''three columns''" env0,
             THEN conjunct2, THEN conjunct2, THEN conjunct2, rule_format,
             OF conjI [OF f conjI [OF j4 conjI [OF m v]]]] .
  from a b c d show ?thesis by (intro conjI)
qed

section \<open>Plotting the trajectory\<close>


lemma length_items_to_numpy: "length (items (to_numpy env cs)) = length cs"
  by (simp add: to_numpy_def)

lemma items_to_numpy_nth:
  "i < length cs \<Longrightarrow> items (to_numpy env cs) ! i = value_at env cs i"
  by (simp add: to_numpy_def value_at_def)

lemma getitem_first: "xs \<noteq> [] \<Longrightarrow> getitem xs 0 = Inr (xs ! 0)"
  by (simp add: getitem_def)

lemma getitem_last: "xs \<noteq> [] \<Longrightarrow> getitem xs (- 1) = Inr (xs ! (length xs - 1))"
proof -
  assume "xs \<noteq> []"
  then have "0 < length xs" by simp
  then have "nat (int (length xs) + - 1) = length xs - 1" "1 \<le> int (length xs)"
    by linarith+
  then show ?thesis
    by (simp add: getitem_def)
qed

lemma fle_refl: "f \<noteq> NaN \<Longrightarrow> fle f f"
  by (cases f) simp_all

lemma fle_total: "f \<noteq> NaN \<Longrightarrow> g \<noteq> NaN \<Longrightarrow> fle f g \<or> fle g f"
  by (cases f; cases g) auto

lemma fle_trans: "fle f g \<Longrightarrow> fle g h \<Longrightarrow> g \<noteq> NaN \<Longrightarrow> fle f h"
  by (cases f; cases g; cases h) auto

lemma fold_fmax2_NaN: "NaN \<in> set (f # fs) \<Longrightarrow> fold fmax2 fs f = NaN"
proof (induction fs arbitrary: f)
  case Nil
  then show ?case by simp
next
  case (Cons g fs)
  have "NaN \<in> set (fmax2 g f # fs)"
    using Cons.prems by (auto simp: fmax2_def)
  then show ?case
    using Cons.IH [of "fmax2 g f"] by simp
qed

lemma fold_fmin2_NaN: "NaN \<in> set (f # fs) \<Longrightarrow> fold fmin2 fs f = NaN"
proof (induction fs arbitrary: f)
  case Nil
  then show ?case by simp
next
  case (Cons g fs)
  have "NaN \<in> set (fmin2 g f # fs)"
    using Cons.prems by (auto simp: fmin2_def)
  then show ?case
    using Cons.IH [of "fmin2 g f"] by simp
qed

lemma fold_fmax2_greatest:
  "NaN \<notin> set (f # fs) \<Longrightarrow>
   fold fmax2 fs f \<in> set (f # fs) \<and> (\<forall>g \<in> set (f # fs). fle g (fold fmax2 fs f))"
proof (induction fs arbitrary: f)
  case Nil
  then show ?case by (simp add: fle_refl)
next
  case (Cons g fs)
  let ?m = "fmax2 g f"
  have m: "?m = (if fle g f then f else g)" and nn: "f \<noteq> NaN" "g \<noteq> NaN"
    using Cons.prems by (auto simp: fmax2_def)
  then have "NaN \<notin> set (?m # fs)"
    using Cons.prems by auto
  from Cons.IH [OF this] have
    mem: "fold fmax2 fs ?m \<in> set (?m # fs)" and
    ge: "\<forall>h \<in> set (?m # fs). fle h (fold fmax2 fs ?m)"
    by auto
  have mn: "?m \<noteq> NaN" using m nn by auto
  have "fle ?m (fold fmax2 fs ?m)" using ge by simp
  moreover have "fle f ?m" "fle g ?m"
    using m nn fle_refl fle_total by (auto split: if_splits)
  ultimately have "fle f (fold fmax2 fs ?m)" "fle g (fold fmax2 fs ?m)"
    using fle_trans mn by blast+
  moreover have "fold fmax2 fs ?m \<in> set (f # g # fs)"
    using mem m by (auto split: if_splits)
  ultimately show ?case
    using ge by simp
qed

lemma fold_fmin2_least:
  "NaN \<notin> set (f # fs) \<Longrightarrow>
   fold fmin2 fs f \<in> set (f # fs) \<and> (\<forall>g \<in> set (f # fs). fle (fold fmin2 fs f) g)"
proof (induction fs arbitrary: f)
  case Nil
  then show ?case by (simp add: fle_refl)
next
  case (Cons g fs)
  let ?m = "fmin2 g f"
  have m: "?m = (if fle g f then g else f)" and nn: "f \<noteq> NaN" "g \<noteq> NaN"
    using Cons.prems by (auto simp: fmin2_def)
  then have "NaN \<notin> set (?m # fs)"
    using Cons.prems by auto
  from Cons.IH [OF this] have
    mem: "fold fmin2 fs ?m \<in> set (?m # fs)" and
    le: "\<forall>h \<in> set (?m # fs). fle (fold fmin2 fs ?m) h"
    by auto
  have mn: "?m \<noteq> NaN" using m nn by auto
  have "fle (fold fmin2 fs ?m) ?m" using le by simp
  moreover have "fle ?m f" "fle ?m g"
    using m nn fle_refl fle_total by (auto split: if_splits)
  ultimately have "fle (fold fmin2 fs ?m) f" "fle (fold fmin2 fs ?m) g"
    using fle_trans mn by blast+
  moreover have "fold fmin2 fs ?m \<in> set (f # g # fs)"
    using mem m by (auto split: if_splits)
  ultimately show ?case
    using le by simp
qed

lemma np_max_is_max:
  assumes "items a \<noteq> []"
  shows "\<exists>h. np_max a = Inr h \<and> is_max a h"
proof (cases a)
  case (Int64Array ns)
  with assms obtain x xs where "ns = x # xs" by (cases ns) auto
  with Int64Array show ?thesis
    by (simp add: is_max_def Max.set_eq_fold del: set_simps)
next
  case (Float64Array fs)
  with assms obtain x xs where c: "fs = x # xs" by (cases fs) auto
  show ?thesis
  proof (cases "NaN \<in> set fs")
    case True
    with fold_fmax2_NaN [of x xs] c Float64Array show ?thesis
      by (simp add: is_max_def del: set_simps)
  next
    case False
    with fold_fmax2_greatest [of x xs] c have
      "fold fmax2 xs x \<in> set fs" "\<forall>g \<in> set fs. fle g (fold fmax2 xs x)"
      by auto
    with False c Float64Array show ?thesis
      by (auto simp: is_max_def simp del: set_simps)
  qed
qed

lemma np_min_is_min:
  assumes "items a \<noteq> []"
  shows "\<exists>l. np_min a = Inr l \<and> is_min a l"
proof (cases a)
  case (Int64Array ns)
  with assms obtain x xs where "ns = x # xs" by (cases ns) auto
  with Int64Array show ?thesis
    by (simp add: is_min_def Min.set_eq_fold del: set_simps)
next
  case (Float64Array fs)
  with assms obtain x xs where c: "fs = x # xs" by (cases fs) auto
  show ?thesis
  proof (cases "NaN \<in> set fs")
    case True
    with fold_fmin2_NaN [of x xs] c Float64Array show ?thesis
      by (simp add: is_min_def del: set_simps)
  next
    case False
    with fold_fmin2_least [of x xs] c have
      "fold fmin2 xs x \<in> set fs" "\<forall>g \<in> set fs. fle (fold fmin2 xs x) g"
      by auto
    with False c Float64Array show ?thesis
      by (auto simp: is_min_def simp del: set_simps)
  qed
qed

lemma span_eq:
  "np_max xs = Inr hi \<Longrightarrow> np_min xs = Inr lo \<Longrightarrow> span env xs = Inr (ssub env hi lo)"
  by (simp add: span_def ebind_def)

lemma mid_eq:
  "np_max xs = Inr hi \<Longrightarrow> np_min xs = Inr lo \<Longrightarrow>
   mid env xs = Inr (fmul_half env (to_f64 env (sadd env hi lo)))"
  by (simp add: mid_def ebind_def)

lemma max_range_eq:
  assumes "np_max xs = Inr hx" and "np_min xs = Inr lx"
    and "np_max ys = Inr hy" and "np_min ys = Inr ly"
    and "np_max zs = Inr hz" and "np_min zs = Inr lz"
  shows "max_range env xs ys zs
         = Inr (fdiv_2 env (to_f64 env
                  (np_array_max env (ssub env hx lx) (ssub env hy ly) (ssub env hz lz))))"
  using assms by (simp add: max_range_def ebind_def span_eq)

lemma set_lim_finite:
  "is_finite lo \<Longrightarrow> is_finite hi \<Longrightarrow> set_lim lo hi = Inr (lo, hi)"
  by (simp add: set_lim_def)

lemma set_lim_not_finite:
  "\<not> (is_finite lo \<and> is_finite hi) \<Longrightarrow>
   set_lim lo hi = Inl (ValueError ''Axis limits cannot be NaN or Inf'')"
  by (simp add: set_lim_def)

lemma trajectory_figure_eq:
  assumes "map_of df ''x'' = Some cx" and "map_of df ''y'' = Some cy"
    and "map_of df ''z'' = Some cz"
    and "cx \<noteq> []" and "length cy = length cx" and "length cz = length cx"
    and "max_range env (to_numpy env cx) (to_numpy env cy) (to_numpy env cz) = Inr r"
    and "mid env (to_numpy env cx) = Inr mx"
    and "mid env (to_numpy env cy) = Inr my"
    and "mid env (to_numpy env cz) = Inr mz"
  shows "trajectory_figure env df =
     (if limits_finite env r mx my mz then
        Inr \<lparr>line = (to_numpy env cx, to_numpy env cy, to_numpy env cz),
             start_marker = (value_at env cx 0, value_at env cy 0, value_at env cz 0),
             end_marker = (value_at env cx (length cx - 1), value_at env cy (length cx - 1),
                           value_at env cz (length cx - 1)),
             xlabel = ''X Position (m)'',
             ylabel = ''Y Position (m)'',
             zlabel = ''Z Position (m)'',
             xlim = (fsub env mx r, fadd env mx r),
             ylim = (fsub env my r, fadd env my r),
             zlim = (fsub env mz r, fadd env mz r)\<rparr>
      else Inl (ValueError ''Axis limits cannot be NaN or Inf''))"
proof -
  let ?xs = "to_numpy env cx" and ?ys = "to_numpy env cy" and ?zs = "to_numpy env cz"
  have ny: "cy \<noteq> []" and nz: "cz \<noteq> []"
    using assms(4-6) by auto
  have pos: "0 < length cx" "0 < length cy" "0 < length cz"
    using assms(4) ny nz by simp_all
  have ne: "items ?xs \<noteq> []" "items ?ys \<noteq> []" "items ?zs \<noteq> []"
    using assms(4) ny nz length_items_to_numpy [of env cx] length_items_to_numpy [of env cy]
      length_items_to_numpy [of env cz]
    by auto
  have cols: "get_column df ''x'' = Inr cx" "get_column df ''y'' = Inr cy"
    "get_column df ''z'' = Inr cz"
    using assms(1-3) by (simp_all add: get_column_def)
  have len: "\<not> (length (items ?ys) \<noteq> length (items ?xs)
               \<or> length (items ?zs) \<noteq> length (items ?xs))"
    using assms(5,6) by (simp add: length_items_to_numpy)
  have first: "getitem (items ?xs) 0 = Inr (value_at env cx 0)"
    "getitem (items ?ys) 0 = Inr (value_at env cy 0)"
    "getitem (items ?zs) 0 = Inr (value_at env cz 0)"
    using getitem_first [OF ne(1)] getitem_first [OF ne(2)] getitem_first [OF ne(3)]
      items_to_numpy_nth [OF pos(1), of env] items_to_numpy_nth [OF pos(2), of env]
      items_to_numpy_nth [OF pos(3), of env]
    by simp_all
  have lastx: "getitem (items ?xs) (- 1) = Inr (value_at env cx (length cx - 1))"
    using getitem_last [OF ne(1)] items_to_numpy_nth [of "length cx - 1" cx env] pos(1)
    by (simp add: length_items_to_numpy)
  have lasty: "getitem (items ?ys) (- 1) = Inr (value_at env cy (length cx - 1))"
    using getitem_last [OF ne(2)] items_to_numpy_nth [of "length cy - 1" cy env] pos(2)
      assms(5)
    by (simp add: length_items_to_numpy)
  have lastz: "getitem (items ?zs) (- 1) = Inr (value_at env cz (length cx - 1))"
    using getitem_last [OF ne(3)] items_to_numpy_nth [of "length cz - 1" cz env] pos(3)
      assms(6)
    by (simp add: length_items_to_numpy)
  have body: "trajectory_figure env df =
     ebind (set_lim (fsub env mx r) (fadd env mx r)) (\<lambda>lim_x.
     ebind (set_lim (fsub env my r) (fadd env my r)) (\<lambda>lim_y.
     ebind (set_lim (fsub env mz r) (fadd env mz r)) (\<lambda>lim_z.
       Inr \<lparr>line = (?xs, ?ys, ?zs),
            start_marker = (value_at env cx 0, value_at env cy 0, value_at env cz 0),
            end_marker = (value_at env cx (length cx - 1), value_at env cy (length cx - 1),
                          value_at env cz (length cx - 1)),
            xlabel = ''X Position (m)'',
            ylabel = ''Y Position (m)'',
            zlabel = ''Z Position (m)'',
            xlim = lim_x, ylim = lim_y, zlim = lim_z\<rparr>)))"
    unfolding trajectory_figure_def cols
    by (simp only: ebind_def sum.case Let_def len if_False first lastx lasty lastz assms(7-10))
  show ?thesis
  proof (cases "limits_finite env r mx my mz")
    case True
    then show ?thesis
      unfolding body by (simp add: limits_finite_def set_lim_finite ebind_def)
  next
    case False
    then show ?thesis
      unfolding body by (auto simp: limits_finite_def set_lim_def ebind_def)
  qed
qed

lemma plot_trajectory_eq:
  assumes "trajectory_figure env df = Inr fig" and "writable env p"
  shows "plot_trajectory env df p w = (Inr (), w\<lparr>files := (files w)(p \<mapsto> Image fig)\<rparr>)"
  using assms by (simp add: plot_trajectory_def savefig_def)

lemma plot_trajectory_raises:
  assumes "trajectory_figure env df = Inl e"
  shows "plot_trajectory env df p w = (Inl e, w)"
  using assms by (simp add: plot_trajectory_def)







lemma getitem_column_first:
  assumes "cs \<noteq> []"
  shows "getitem (items (to_numpy env cs)) 0 = Inr (value_at env cs 0)"
proof -
  have "items (to_numpy env cs) \<noteq> []"
    using assms length_items_to_numpy [of env cs] by auto
  from getitem_first [OF this] show ?thesis
    using assms by (simp add: items_to_numpy_nth)
qed

lemma getitem_column_last:
  assumes "cs \<noteq> []"
  shows "getitem (items (to_numpy env cs)) (- 1) = Inr (value_at env cs (length cs - 1))"
proof -
  have "items (to_numpy env cs) \<noteq> []"
    using assms length_items_to_numpy [of env cs] by auto
  from getitem_last [OF this] show ?thesis
    using assms by (simp add: items_to_numpy_nth length_items_to_numpy)
qed

lemma max_range_mid_defined:
  assumes "cx \<noteq> []" and "cy \<noteq> []" and "cz \<noteq> []"
  shows "\<exists>r mx my mz.
           max_range env (to_numpy env cx) (to_numpy env cy) (to_numpy env cz) = Inr r
         \<and> mid env (to_numpy env cx) = Inr mx
         \<and> mid env (to_numpy env cy) = Inr my
         \<and> mid env (to_numpy env cz) = Inr mz"
proof -
  let ?xs = "to_numpy env cx" and ?ys = "to_numpy env cy" and ?zs = "to_numpy env cz"
  have ne: "items ?xs \<noteq> []" "items ?ys \<noteq> []" "items ?zs \<noteq> []"
    using assms length_items_to_numpy [of env cx] length_items_to_numpy [of env cy]
      length_items_to_numpy [of env cz]
    by auto
  from np_max_is_max [OF ne(1)] np_min_is_min [OF ne(1)] obtain hx lx where
    x: "np_max ?xs = Inr hx" "np_min ?xs = Inr lx" by blast
  from np_max_is_max [OF ne(2)] np_min_is_min [OF ne(2)] obtain hy ly where
    y: "np_max ?ys = Inr hy" "np_min ?ys = Inr ly" by blast
  from np_max_is_max [OF ne(3)] np_min_is_min [OF ne(3)] obtain hz lz where
    z: "np_max ?zs = Inr hz" "np_min ?zs = Inr lz" by blast
  from max_range_eq [OF x y z, of env] mid_eq [OF x, of env] mid_eq [OF y, of env]
    mid_eq [OF z, of env]
  show ?thesis by blast
qed

text \<open>
  Claim C9, as stated, fails: for the single row with \<^verbatim>\<open>x\<close> about
  \<^verbatim>\<open>8.98846567431158e307\<close> and \<^verbatim>\<open>y = z = 0\<close> both index accesses are in range, but
  the sum of maximum and minimum of \<^verbatim>\<open>x\<close> overflows, the midpoint is infinite and
  \<^verbatim>\<open>set_xlim\<close> raises: plotting does not succeed.
\<close>

theorem plot_trajectory_one_row_counterexample:
  "plot_trajectory env1
     [(''x'', [FloatCell (Finite (2 ^ 1023))]),
      (''y'', [FloatCell (Finite 0)]),
      (''z'', [FloatCell (Finite 0)])]
     (Slash (Path ''output'') ''orbit1_1700000000.png'') world_empty
   = (Inl (ValueError ''Axis limits cannot be NaN or Inf''), world_empty)"
proof -
  let ?cx = "[FloatCell (Finite (2 ^ 1023))]"
  let ?c0 = "[FloatCell (Finite 0)]"
  let ?df = "[(''x'', ?cx), (''y'', ?c0), (''z'', ?c0)]"
  have rd: "round64 env1 = (\<lambda>q. q)"
    by (simp add: env1_def)
  have r: "max_range env1 (to_numpy env1 ?cx) (to_numpy env1 ?c0) (to_numpy env1 ?c0)
           = Inr (Finite 0)"
    by (simp add: max_range_def span_def ebind_def to_numpy_def fmax2_def fmin2_def
          fsub_def fl_def rd float_max_def)
  have mx: "mid env1 (to_numpy env1 ?cx) = Inr PosInf"
    by (simp add: mid_def ebind_def to_numpy_def fl_def rd float_max_def)
  have m0: "mid env1 (to_numpy env1 ?c0) = Inr (Finite 0)"
    by (simp add: mid_def ebind_def to_numpy_def fl_def rd float_max_def)
  have nf: "\<not> limits_finite env1 (Finite 0) PosInf (Finite 0) (Finite 0)"
    by (simp add: limits_finite_def fsub_def)
  have "trajectory_figure env1 ?df = Inl (ValueError ''Axis limits cannot be NaN or Inf'')"
    using trajectory_figure_eq [of ?df ?cx ?c0 ?c0 env1, OF _ _ _ _ _ _ r mx m0 m0] nf
    by simp
  then show ?thesis
    by (rule plot_trajectory_raises)
qed

text \<open>
  Claim C9, amended. For a trajectory table with at least one row, both index accesses
  of \<^verbatim>\<open>plot_trajectory\<close> are in range: index \<^verbatim>\<open>0\<close> gives the first row and index
  \<^verbatim>\<open>-1\<close> the last. When the six limits computed for the axes are finite, the plot is
  saved with the start marker at the first row and the end marker at the last row, and
  with exactly one row the two markers are the same point. When a limit is infinite or
  NaN (an overflow, or NaN or \<^verbatim>\<open>null\<close> in the data), \<^verbatim>\<open>ValueError\<close> is raised instead and
  nothing is saved.
\<close>

theorem plot_trajectory_markers:
  assumes "map_of df ''x'' = Some cx" and "map_of df ''y'' = Some cy"
    and "map_of df ''z'' = Some cz"
    and "cx \<noteq> []" and "length cy = length cx" and "length cz = length cx"
    and "writable env p"
  shows "getitem (items (to_numpy env cx)) 0 = Inr (value_at env cx 0)
       \<and> getitem (items (to_numpy env cy)) 0 = Inr (value_at env cy 0)
       \<and> getitem (items (to_numpy env cz)) 0 = Inr (value_at env cz 0)
       \<and> getitem (items (to_numpy env cx)) (- 1) = Inr (value_at env cx (length cx - 1))
       \<and> getitem (items (to_numpy env cy)) (- 1) = Inr (value_at env cy (length cx - 1))
       \<and> getitem (items (to_numpy env cz)) (- 1) = Inr (value_at env cz (length cx - 1))
       \<and> (\<exists>r mx my mz.
              max_range env (to_numpy env cx) (to_numpy env cy) (to_numpy env cz) = Inr r
            \<and> mid env (to_numpy env cx) = Inr mx
            \<and> mid env (to_numpy env cy) = Inr my
            \<and> mid env (to_numpy env cz) = Inr mz
            \<and> (limits_finite env r mx my mz \<longrightarrow>
                 (\<exists>fig. plot_trajectory env df p w
                          = (Inr (), w\<lparr>files := (files w)(p \<mapsto> Image fig)\<rparr>)
                      \<and> start_marker fig
                          = (value_at env cx 0, value_at env cy 0, value_at env cz 0)
                      \<and> end_marker fig
                          = (value_at env cx (length cx - 1), value_at env cy (length cx - 1),
                             value_at env cz (length cx - 1))
                      \<and> (length cx = 1 \<longrightarrow> start_marker fig = end_marker fig)))
            \<and> (\<not> limits_finite env r mx my mz \<longrightarrow>
                 plot_trajectory env df p w
                   = (Inl (ValueError ''Axis limits cannot be NaN or Inf''), w)))"
proof -
  have ny: "cy \<noteq> []" and nz: "cz \<noteq> []"
    using assms(4-6) by auto
  from max_range_mid_defined [OF assms(4) ny nz, of env] obtain r mx my mz where
    r: "max_range env (to_numpy env cx) (to_numpy env cy) (to_numpy env cz) = Inr r"
    and m: "mid env (to_numpy env cx) = Inr mx" "mid env (to_numpy env cy) = Inr my"
      "mid env (to_numpy env cz) = Inr mz"
    by (elim exE conjE) (rule that)
  note fig = trajectory_figure_eq [OF assms(1-6) r m]
  have ok: "limits_finite env r mx my mz \<longrightarrow>
                 (\<exists>fig. plot_trajectory env df p w
                          = (Inr (), w\<lparr>files := (files w)(p \<mapsto> Image fig)\<rparr>)
                      \<and> start_marker fig
                          = (value_at env cx 0, value_at env cy 0, value_at env cz 0)
                      \<and> end_marker fig
                          = (value_at env cx (length cx - 1), value_at env cy (length cx - 1),
                             value_at env cz (length cx - 1))
                      \<and> (length cx = 1 \<longrightarrow> start_marker fig = end_marker fig))"
  proof
    assume f: "limits_finite env r mx my mz"
    let ?fig = "\<lparr>line = (to_numpy env cx, to_numpy env cy, to_numpy env cz),
             start_marker = (value_at env cx 0, value_at env cy 0, value_at env cz 0),
             end_marker = (value_at env cx (length cx - 1), value_at env cy (length cx - 1),
                           value_at env cz (length cx - 1)),
             xlabel = ''X Position (m)'',
             ylabel = ''Y Position (m)'',
             zlabel = ''Z Position (m)'',
             xlim = (fsub env mx r, fadd env mx r),
             ylim = (fsub env my r, fadd env my r),
             zlim = (fsub env mz r, fadd env mz r)\<rparr>"
    have "trajectory_figure env df = Inr ?fig"
      unfolding fig using f by (simp only: if_True)
    then have "plot_trajectory env df p w
               = (Inr (), w\<lparr>files := (files w)(p \<mapsto> Image ?fig)\<rparr>)"
      using assms(7) by (rule plot_trajectory_eq)
    then show "\<exists>fig. plot_trajectory env df p w
                          = (Inr (), w\<lparr>files := (files w)(p \<mapsto> Image fig)\<rparr>)
                      \<and> start_marker fig
                          = (value_at env cx 0, value_at env cy 0, value_at env cz 0)
                      \<and> end_marker fig
                          = (value_at env cx (length cx - 1), value_at env cy (length cx - 1),
                             value_at env cz (length cx - 1))
                      \<and> (length cx = 1 \<longrightarrow> start_marker fig = end_marker fig)"
      by (intro exI [of _ ?fig] conjI) simp_all
  qed
  have bad: "\<not> limits_finite env r mx my mz \<longrightarrow>
               plot_trajectory env df p w
                 = (Inl (ValueError ''Axis limits cannot be NaN or Inf''), w)"
  proof
    assume f: "\<not> limits_finite env r mx my mz"
    have "trajectory_figure env df = Inl (ValueError ''Axis limits cannot be NaN or Inf'')"
      unfolding fig using f by (simp only: if_False)
    then show "plot_trajectory env df p w
                 = (Inl (ValueError ''Axis limits cannot be NaN or Inf''), w)"
      by (rule plot_trajectory_raises)
  qed
  have ly: "getitem (items (to_numpy env cy)) (- 1) = Inr (value_at env cy (length cx - 1))"
    using getitem_column_last [OF ny, of env] assms(5) by simp
  have lz: "getitem (items (to_numpy env cz)) (- 1) = Inr (value_at env cz (length cx - 1))"
    using getitem_column_last [OF nz, of env] assms(6) by simp
  have rest: "\<exists>r mx my mz.
              max_range env (to_numpy env cx) (to_numpy env cy) (to_numpy env cz) = Inr r
            \<and> mid env (to_numpy env cx) = Inr mx
            \<and> mid env (to_numpy env cy) = Inr my
            \<and> mid env (to_numpy env cz) = Inr mz
            \<and> (limits_finite env r mx my mz \<longrightarrow>
                 (\<exists>fig. plot_trajectory env df p w
                          = (Inr (), w\<lparr>files := (files w)(p \<mapsto> Image fig)\<rparr>)
                      \<and> start_marker fig
                          = (value_at env cx 0, value_at env cy 0, value_at env cz 0)
                      \<and> end_marker fig
                          = (value_at env cx (length cx - 1), value_at env cy (length cx - 1),
                             value_at env cz (length cx - 1))
                      \<and> (length cx = 1 \<longrightarrow> start_marker fig = end_marker fig)))
            \<and> (\<not> limits_finite env r mx my mz \<longrightarrow>
                 plot_trajectory env df p w
                   = (Inl (ValueError ''Axis limits cannot be NaN or Inf''), w))"
    apply (rule exI [of _ r], rule exI [of _ mx], rule exI [of _ my], rule exI [of _ mz])
    apply (intro conjI)
         apply (rule r m ok bad)+
    done
  show ?thesis
    apply (intro conjI)
          apply (rule getitem_column_first [OF assms(4)])
         apply (rule getitem_column_first [OF ny])
        apply (rule getitem_column_first [OF nz])
       apply (rule getitem_column_last [OF assms(4)])
      apply (rule ly)
     apply (rule lz)
    apply (rule rest)
    done
qed

theorem plot_trajectory_markers_witness:
  "(\<exists>fig. plot_trajectory env1
             [(''x'', [IntCell 0, IntCell 1, IntCell 2]),
              (''y'', [IntCell 0, IntCell 1, IntCell 0]),
              (''z'', [IntCell 0, IntCell 1, IntCell 2])]
             (Slash (Path ''output'') ''orbit1_1700000000.png'') world_empty
           = (Inr (), world_empty\<lparr>files :=
                (files world_empty)(Slash (Path ''output'') ''orbit1_1700000000.png''
                   \<mapsto> Image fig)\<rparr>)
         \<and> start_marker fig = (I64 0, I64 0, I64 0)
         \<and> end_marker fig = (I64 2, I64 0, I64 2))
   \<and> (\<exists>fig. plot_trajectory env1
             [(''x'', [IntCell 5]), (''y'', [IntCell 6]), (''z'', [IntCell 7])]
             (Slash (Path ''output'') ''orbit1_1700000000.png'') world_empty
           = (Inr (), world_empty\<lparr>files :=
                (files world_empty)(Slash (Path ''output'') ''orbit1_1700000000.png''
                   \<mapsto> Image fig)\<rparr>)
         \<and> start_marker fig = (I64 5, I64 6, I64 7)
         \<and> end_marker fig = (I64 5, I64 6, I64 7))"
proof -
  let ?cx = "[IntCell 0, IntCell 1, IntCell 2]"
  let ?cy = "[IntCell 0, IntCell 1, IntCell 0]"
  let ?df = "[(''x'', ?cx), (''y'', ?cy), (''z'', ?cx)]"
  let ?one = "[(''x'', [IntCell 5]), (''y'', [IntCell 6]), (''z'', [IntCell 7])]"
  let ?p = "Slash (Path ''output'') ''orbit1_1700000000.png''"
  have rd: "round64 env1 = (\<lambda>q. q)"
    by (simp add: env1_def)
  have w: "writable env1 ?p"
    by (simp add: env1_def env0_def)
  have c: "map_of ?df ''x'' = Some ?cx" "map_of ?df ''y'' = Some ?cy"
    "map_of ?df ''z'' = Some ?cx"
    by simp_all
  have n: "?cx \<noteq> []" and l: "length ?cy = length ?cx" "length ?cx = length ?cx"
    by simp_all
  have c1: "map_of ?one ''x'' = Some [IntCell 5]" "map_of ?one ''y'' = Some [IntCell 6]"
    "map_of ?one ''z'' = Some [IntCell 7]"
    by simp_all
  have n1: "[IntCell 5] \<noteq> []"
    and l1: "length [IntCell 6] = length [IntCell 5]" "length [IntCell 7] = length [IntCell 5]"
    by simp_all
  have v3: "max_range env1 (to_numpy env1 ?cx) (to_numpy env1 ?cy) (to_numpy env1 ?cx)
            = Inr (Finite 1)"
    "mid env1 (to_numpy env1 ?cx) = Inr (Finite 1)"
    "mid env1 (to_numpy env1 ?cy) = Inr (Finite (1 / 2))"
    by (simp_all add: max_range_def span_def mid_def ebind_def to_numpy_def wrap64_def
          fl_def rd float_max_def)
  have f3: "limits_finite env1 (Finite 1) (Finite 1) (Finite (1 / 2)) (Finite 1)"
    by (simp add: limits_finite_def fsub_def fl_def rd float_max_def)
  have v1: "max_range env1 (to_numpy env1 [IntCell 5]) (to_numpy env1 [IntCell 6])
              (to_numpy env1 [IntCell 7]) = Inr (Finite 0)"
    "mid env1 (to_numpy env1 [IntCell 5]) = Inr (Finite 5)"
    "mid env1 (to_numpy env1 [IntCell 6]) = Inr (Finite 6)"
    "mid env1 (to_numpy env1 [IntCell 7]) = Inr (Finite 7)"
    by (simp_all add: max_range_def span_def mid_def ebind_def to_numpy_def wrap64_def
          fl_def rd float_max_def)
  have f1: "limits_finite env1 (Finite 0) (Finite 5) (Finite 6) (Finite 7)"
    by (simp add: limits_finite_def fsub_def fl_def rd float_max_def)
  from plot_trajectory_markers [OF c n l w, of world_empty] obtain r mx my mz where
    a: "max_range env1 (to_numpy env1 ?cx) (to_numpy env1 ?cy) (to_numpy env1 ?cx) = Inr r"
      "mid env1 (to_numpy env1 ?cx) = Inr mx" "mid env1 (to_numpy env1 ?cy) = Inr my"
      "mid env1 (to_numpy env1 ?cx) = Inr mz"
    and ok: "limits_finite env1 r mx my mz \<longrightarrow>
               (\<exists>fig. plot_trajectory env1 ?df ?p world_empty
                        = (Inr (), world_empty\<lparr>files := (files world_empty)(?p \<mapsto> Image fig)\<rparr>)
                    \<and> start_marker fig
                        = (value_at env1 ?cx 0, value_at env1 ?cy 0, value_at env1 ?cx 0)
                    \<and> end_marker fig
                        = (value_at env1 ?cx (length ?cx - 1), value_at env1 ?cy (length ?cx - 1),
                           value_at env1 ?cx (length ?cx - 1))
                    \<and> (length ?cx = 1 \<longrightarrow> start_marker fig = end_marker fig))"
    by (elim exE conjE) (rule that)
  have "r = Finite 1" "mx = Finite 1" "my = Finite (1 / 2)" "mz = Finite 1"
    using a v3 by simp_all
  with f3 have lf: "limits_finite env1 r mx my mz"
    by simp
  from mp [OF ok lf] obtain fig where
    p: "plot_trajectory env1 ?df ?p world_empty
        = (Inr (), world_empty\<lparr>files := (files world_empty)(?p \<mapsto> Image fig)\<rparr>)"
    and s: "start_marker fig = (value_at env1 ?cx 0, value_at env1 ?cy 0, value_at env1 ?cx 0)"
    and e: "end_marker fig
            = (value_at env1 ?cx (length ?cx - 1), value_at env1 ?cy (length ?cx - 1),
               value_at env1 ?cx (length ?cx - 1))"
    by (elim exE conjE) (rule that)
  from plot_trajectory_markers [OF c1 n1 l1 w, of world_empty] obtain r' mx' my' mz' where
    a': "max_range env1 (to_numpy env1 [IntCell 5]) (to_numpy env1 [IntCell 6])
           (to_numpy env1 [IntCell 7]) = Inr r'"
      "mid env1 (to_numpy env1 [IntCell 5]) = Inr mx'"
      "mid env1 (to_numpy env1 [IntCell 6]) = Inr my'"
      "mid env1 (to_numpy env1 [IntCell 7]) = Inr mz'"
    and ok': "limits_finite env1 r' mx' my' mz' \<longrightarrow>
               (\<exists>fig. plot_trajectory env1 ?one ?p world_empty
                        = (Inr (), world_empty\<lparr>files := (files world_empty)(?p \<mapsto> Image fig)\<rparr>)
                    \<and> start_marker fig
                        = (value_at env1 [IntCell 5] 0, value_at env1 [IntCell 6] 0,
                           value_at env1 [IntCell 7] 0)
                    \<and> end_marker fig
                        = (value_at env1 [IntCell 5] (length [IntCell 5] - 1),
                           value_at env1 [IntCell 6] (length [IntCell 5] - 1),
                           value_at env1 [IntCell 7] (length [IntCell 5] - 1))
                    \<and> (length [IntCell 5] = 1 \<longrightarrow> start_marker fig = end_marker fig))"
    by (elim exE conjE) (rule that)
  have "r' = Finite 0" "mx' = Finite 5" "my' = Finite 6" "mz' = Finite 7"
    using a' v1 by simp_all
  with f1 have lf': "limits_finite env1 r' mx' my' mz'"
    by simp
  from mp [OF ok' lf'] obtain fig1 where
    p1: "plot_trajectory env1 ?one ?p world_empty
        = (Inr (), world_empty\<lparr>files := (files world_empty)(?p \<mapsto> Image fig1)\<rparr>)"
    and s1: "start_marker fig1
             = (value_at env1 [IntCell 5] 0, value_at env1 [IntCell 6] 0,
                value_at env1 [IntCell 7] 0)"
    and e1: "length [IntCell 5] = 1 \<longrightarrow> start_marker fig1 = end_marker fig1"
    by (elim exE conjE) (rule that)
  have "start_marker fig = (I64 0, I64 0, I64 0)"
    using s by (simp add: value_at_def)
  moreover have "end_marker fig = (I64 2, I64 0, I64 2)"
    using e by (simp add: value_at_def)
  moreover have "start_marker fig1 = (I64 5, I64 6, I64 7)"
    using s1 by (simp add: value_at_def)
  moreover have "end_marker fig1 = (I64 5, I64 6, I64 7)"
    using s1 e1 by (simp add: value_at_def)
  ultimately show ?thesis
    using p p1 by (intro exI [of _ fig] exI [of _ fig1] conjI)
qed

section \<open>The orchestrator\<close>

lemma main_not_found:
  assumes "load_index env w = Inr index"
    and "get_simulation index (args_simulation_id args) = None"
  shows "main env args w =
           (Inl (ValueError (not_found_message (args_simulation_id args))),
            w\<lparr>log_records := log_records w @
                 [\<lparr>severity = Error, event = ''Simulation with provided id not found.'',
                   bindings = [(''simulation_id'', LStr (args_simulation_id args))]\<rparr>]\<rparr>)"
  using assms by (simp add: main_def log_emit_def)

lemma main_found:
  assumes "load_index env w = Inr index"
    and "get_simulation index (args_simulation_id args) = Some simulation"
  shows "main env args w =
     (let bound = [(''simulation_id'', LStr (args_simulation_id args))];
          start_ts = clock env (ticks w);
          w2 = log_emit bound Info ''Running simulation.'' [] (w\<lparr>ticks := Suc (ticks w)\<rparr>);
          (r, w3) = run_simulation env simulation (fpm_binary_path args)
                      (log_file_path args start_ts) w2
      in case r of
           Inl e \<Rightarrow> (Inl e, w3)
         | Inr u \<Rightarrow>
             (let end_ts = clock env (ticks w3);
                  w5 = log_emit bound Info ''Simulation finished.''
                         [(''duration_seconds'', LNum (py_round2 (end_ts - start_ts))),
                          (''log_file'', LStr (path_name (log_file_path args start_ts)))]
                         (w3\<lparr>ticks := Suc (ticks w3)\<rparr>)
              in case load_output_data env w5 simulation of
                   Inl e \<Rightarrow> (Inl e, w5)
                 | Inr df \<Rightarrow>
                     (let (r', w6) = plot_trajectory env df (plot_path args start_ts) w5
                      in case r' of
                           Inl e \<Rightarrow> (Inl e, w6)
                         | Inr u \<Rightarrow>
                             (Inr (),
                              log_emit bound Info ''Plot saved.''
                                [(''path'', LStr (path_name (plot_path args start_ts)))] w6))))"
proof -
  have ty: "output_type simulation = TRAJECTORY"
    by (cases "output_type simulation") simp
  show ?thesis
    using assms by (simp add: main_def now_def Let_def ty split: prod.splits sum.splits)
qed

lemma files_log_emit [simp]: "files (log_emit b l m kv w) = files w"
  by (simp add: log_emit_def)

lemma files_run_simulation:
  "q \<noteq> p \<Longrightarrow> files (snd (run_simulation env simulation binary_path p w)) q = files w q"
  by (simp add: run_simulation_def open_w_def subprocess_run_def close_def Let_def
           split: launch.splits)

lemma files_plot_trajectory:
  "q \<noteq> p \<Longrightarrow> files (snd (plot_trajectory env df p w)) q = files w q"
  by (simp add: plot_trajectory_def savefig_def split: sum.splits)

lemma main_files_frame:
  assumes "q \<noteq> log_file_path args (clock env (ticks w))"
    and "q \<noteq> plot_path args (clock env (ticks w))"
  shows "files (snd (main env args w)) q = files w q"
proof (cases "load_index env w")
  case (Inl e)
  then show ?thesis by (simp add: main_def)
next
  case (Inr index)
  show ?thesis
  proof (cases "get_simulation index (args_simulation_id args)")
    case None
    show ?thesis
      unfolding main_not_found [OF Inr None] by simp
  next
    case (Some simulation)
    let ?bound = "[(''simulation_id'', LStr (args_simulation_id args))]"
    let ?ts = "clock env (ticks w)"
    let ?w2 = "log_emit ?bound Info ''Running simulation.'' [] (w\<lparr>ticks := Suc (ticks w)\<rparr>)"
    obtain r w3 where rs: "run_simulation env simulation (fpm_binary_path args)
                             (log_file_path args ?ts) ?w2 = (r, w3)"
      by (cases "run_simulation env simulation (fpm_binary_path args)
                   (log_file_path args ?ts) ?w2")
    have f3: "files w3 q = files w q"
      using files_run_simulation [OF assms(1), of env simulation "fpm_binary_path args" ?w2] rs
      by simp
    show ?thesis
    proof (cases r)
      case (Inl e)
      show ?thesis
        unfolding main_found [OF Inr Some] using rs Inl f3 by (simp add: Let_def)
    next
      case r: (Inr u)
      let ?w5 = "log_emit ?bound Info ''Simulation finished.''
                   [(''duration_seconds'', LNum (py_round2 (clock env (ticks w3) - ?ts))),
                    (''log_file'', LStr (path_name (log_file_path args ?ts)))]
                   (w3\<lparr>ticks := Suc (ticks w3)\<rparr>)"
      have f5: "files ?w5 q = files w q"
        using f3 by simp
      show ?thesis
      proof (cases "load_output_data env ?w5 simulation")
        case (Inl e)
        show ?thesis
          unfolding main_found [OF Inr Some] using rs r Inl f5 by (simp add: Let_def)
      next
        case df: (Inr df)
        obtain r' w6 where ps: "plot_trajectory env df (plot_path args ?ts) ?w5 = (r', w6)"
          by (cases "plot_trajectory env df (plot_path args ?ts) ?w5")
        have f6: "files w6 q = files w q"
          using files_plot_trajectory [OF assms(2), of env df ?w5] ps f5 by simp
        show ?thesis
          unfolding main_found [OF Inr Some] using rs r df ps f6
          by (cases r') (simp_all add: Let_def)
      qed
    qed
  qed
qed

lemma main_success:
  assumes "load_index env w = Inr index"
    and "get_simulation index (args_simulation_id args) = Some simulation"
    and "writable env (log_file_path args (clock env (ticks w)))"
    and "spawn env [fpm_binary_path args, ''run'', ''--target'', entrypoint simulation]
         = Exited out 0"
    and "load_output_data env
           (log_emit [(''simulation_id'', LStr (args_simulation_id args))] Info
              ''Simulation finished.''
              [(''duration_seconds'',
                LNum (py_round2 (clock env (Suc (ticks w)) - clock env (ticks w)))),
               (''log_file'', LStr (path_name (log_file_path args (clock env (ticks w)))))]
              (w\<lparr>ticks := Suc (Suc (ticks w)),
                 log_records := log_records w @
                   [\<lparr>severity = Info, event = ''Running simulation.'',
                     bindings = [(''simulation_id'', LStr (args_simulation_id args))]\<rparr>],
                 files := (files w)(log_file_path args (clock env (ticks w)) \<mapsto> Bytes out),
                 processes := processes w @
                   [[fpm_binary_path args, ''run'', ''--target'', entrypoint simulation]]\<rparr>))
           simulation = Inr df"
    and "trajectory_figure env df = Inr fig"
    and "writable env (plot_path args (clock env (ticks w)))"
  shows "fst (main env args w) = Inr ()"
    and "files (snd (main env args w)) (log_file_path args (clock env (ticks w)))
         = Some (Bytes out)"
    and "files (snd (main env args w)) (plot_path args (clock env (ticks w)))
         = Some (Image fig)"
proof -
  let ?bound = "[(''simulation_id'', LStr (args_simulation_id args))]"
  let ?ts = "clock env (ticks w)"
  let ?lp = "log_file_path args ?ts"
  let ?pp = "plot_path args ?ts"
  let ?w2 = "log_emit ?bound Info ''Running simulation.'' [] (w\<lparr>ticks := Suc (ticks w)\<rparr>)"
  let ?w3 = "?w2\<lparr>files := (files ?w2)(?lp \<mapsto> Bytes out),
                processes := processes ?w2 @
                  [[fpm_binary_path args, ''run'', ''--target'', entrypoint simulation]]\<rparr>"
  let ?w5 = "log_emit ?bound Info ''Simulation finished.''
               [(''duration_seconds'', LNum (py_round2 (clock env (ticks ?w3) - ?ts))),
                (''log_file'', LStr (path_name ?lp))]
               (?w3\<lparr>ticks := Suc (ticks ?w3)\<rparr>)"
  have ne: "?pp \<noteq> ?lp"
    by (simp add: plot_path_def log_file_path_def)
  have rs: "run_simulation env simulation (fpm_binary_path args) ?lp ?w2 = (Inr (), ?w3)"
    using run_simulation_exited [OF assms(3,4), of ?w2] by simp
  have w5: "?w5 = log_emit ?bound Info ''Simulation finished.''
              [(''duration_seconds'',
                LNum (py_round2 (clock env (Suc (ticks w)) - clock env (ticks w)))),
               (''log_file'', LStr (path_name ?lp))]
              (w\<lparr>ticks := Suc (Suc (ticks w)),
                 log_records := log_records w @
                   [\<lparr>severity = Info, event = ''Running simulation.'',
                     bindings = ?bound\<rparr>],
                 files := (files w)(?lp \<mapsto> Bytes out),
                 processes := processes w @
                   [[fpm_binary_path args, ''run'', ''--target'', entrypoint simulation]]\<rparr>)"
    by (simp add: log_emit_def)
  have ld: "load_output_data env ?w5 simulation = Inr df"
    unfolding w5 by (rule assms(5))
  have ps: "plot_trajectory env df ?pp ?w5
            = (Inr (), ?w5\<lparr>files := (files ?w5)(?pp \<mapsto> Image fig)\<rparr>)"
    by (rule plot_trajectory_eq [OF assms(6,7)])
  have m: "main env args w =
             (Inr (), log_emit ?bound Info ''Plot saved.'' [(''path'', LStr (path_name ?pp))]
                        (?w5\<lparr>files := (files ?w5)(?pp \<mapsto> Image fig)\<rparr>))"
    unfolding main_found [OF assms(1,2)] Let_def rs
    by (simp only: prod.case sum.case ld ps)
  show "fst (main env args w) = Inr ()"
    unfolding m by simp
  show "files (snd (main env args w)) ?lp = Some (Bytes out)"
    unfolding m using ne by (simp add: log_emit_def)
  show "files (snd (main env args w)) ?pp = Some (Image fig)"
    unfolding m by (simp add: log_emit_def)
qed

lemma run_simulation_Inr:
  assumes "run_simulation env simulation binary_path p w = (Inr u, w3)"
  shows "\<exists>out. spawn env [binary_path, ''run'', ''--target'', entrypoint simulation]
                 = Exited out 0
               \<and> files w3 p = Some (Bytes out)"
proof (cases "writable env p")
  case False
  from run_simulation_unwritable [OF this] assms show ?thesis by simp
next
  case True
  show ?thesis
  proof (cases "spawn env [binary_path, ''run'', ''--target'', entrypoint simulation]")
    case NotLaunched
    from run_simulation_not_launched [OF True this] assms show ?thesis by simp
  next
    case (Exited out rc)
    from run_simulation_exited [OF True this, of w] assms
    have "rc = 0" and "files w3 p = Some (Bytes out)"
      by (auto split: if_splits)
    with Exited show ?thesis by simp
  qed
qed

lemma plot_trajectory_Inr:
  assumes "plot_trajectory env df p w = (Inr u, w6)"
  shows "\<exists>fig. files w6 p = Some (Image fig)"
  using assms
  by (auto simp: plot_trajectory_def savefig_def split: sum.splits if_splits)

lemma main_Inr_files:
  assumes "fst (main env args w) = Inr ()"
  shows "\<exists>out fig.
           files (snd (main env args w)) (log_file_path args (clock env (ticks w)))
             = Some (Bytes out)
         \<and> files (snd (main env args w)) (plot_path args (clock env (ticks w)))
             = Some (Image fig)"
proof (cases "load_index env w")
  case (Inl e)
  with assms show ?thesis by (simp add: main_def)
next
  case (Inr index)
  show ?thesis
  proof (cases "get_simulation index (args_simulation_id args)")
    case None
    from assms show ?thesis
      unfolding main_not_found [OF Inr None] by simp
  next
    case (Some simulation)
    let ?bound = "[(''simulation_id'', LStr (args_simulation_id args))]"
    let ?ts = "clock env (ticks w)"
    let ?lp = "log_file_path args ?ts"
    let ?pp = "plot_path args ?ts"
    let ?w2 = "log_emit ?bound Info ''Running simulation.'' [] (w\<lparr>ticks := Suc (ticks w)\<rparr>)"
    have ne: "?lp \<noteq> ?pp"
      by (simp add: plot_path_def log_file_path_def)
    obtain r w3 where rs: "run_simulation env simulation (fpm_binary_path args) ?lp ?w2
                           = (r, w3)"
      by (cases "run_simulation env simulation (fpm_binary_path args) ?lp ?w2")
    show ?thesis
    proof (cases r)
      case (Inl e)
      from assms show ?thesis
        unfolding main_found [OF Inr Some] using rs Inl by (simp add: Let_def)
    next
      case r: (Inr u)
      from run_simulation_Inr [OF rs [unfolded r]] obtain out where
        f3: "files w3 ?lp = Some (Bytes out)" by blast
      let ?w5 = "log_emit ?bound Info ''Simulation finished.''
                   [(''duration_seconds'', LNum (py_round2 (clock env (ticks w3) - ?ts))),
                    (''log_file'', LStr (path_name ?lp))]
                   (w3\<lparr>ticks := Suc (ticks w3)\<rparr>)"
      have f5: "files ?w5 ?lp = Some (Bytes out)"
        using f3 by simp
      show ?thesis
      proof (cases "load_output_data env ?w5 simulation")
        case (Inl e)
        from assms show ?thesis
          unfolding main_found [OF Inr Some] using rs r Inl by (simp add: Let_def)
      next
        case df: (Inr df)
        obtain r' w6 where ps: "plot_trajectory env df ?pp ?w5 = (r', w6)"
          by (cases "plot_trajectory env df ?pp ?w5")
        show ?thesis
        proof (cases r')
          case (Inl e)
          from assms show ?thesis
            unfolding main_found [OF Inr Some] using rs r df ps Inl by (simp add: Let_def)
        next
          case r': (Inr u')
          from plot_trajectory_Inr [OF ps [unfolded r']] obtain fig where
            f6: "files w6 ?pp = Some (Image fig)" by blast
          have f6': "files w6 ?lp = Some (Bytes out)"
            using files_plot_trajectory [OF ne, of env df ?w5] ps f5 by simp
          have m: "main env args w =
                     (Inr (), log_emit ?bound Info ''Plot saved.''
                                [(''path'', LStr (path_name ?pp))] w6)"
            unfolding main_found [OF Inr Some] using rs r df ps r' by (simp add: Let_def)
          show ?thesis
            unfolding m using f6 f6' by simp
        qed
      qed
    qed
  qed
qed

lemma last_component_append:
  "CHR ''/'' \<notin> set b \<Longrightarrow> last_component (a @ b) = last_component a @ b"
proof -
  assume h: "CHR ''/'' \<notin> set b"
  have "takeWhile (\<lambda>c. c \<noteq> CHR ''/'') (rev b @ rev a)
        = rev b @ takeWhile (\<lambda>c. c \<noteq> CHR ''/'') (rev a)"
    by (rule takeWhile_append2) (use h in auto)
  then show ?thesis
    by (simp add: last_component_def)
qed

text \<open>
  Claim C7. When no descriptor of the index has the requested id, \<^verbatim>\<open>main\<close> emits one
  log record at error severity and raises \<^verbatim>\<open>ValueError\<close>; nothing else has happened: no
  child process was started, no file was written or opened, the clock was not read.
\<close>

theorem main_simulation_not_found:
  assumes "load_index env w = Inr index"
    and "\<forall>s \<in> set (simulations index). simulation_id s \<noteq> args_simulation_id args"
  shows "fst (main env args w)
           = Inl (ValueError (not_found_message (args_simulation_id args)))
       \<and> log_records (snd (main env args w))
           = log_records w @
               [\<lparr>severity = Error, event = ''Simulation with provided id not found.'',
                 bindings = [(''simulation_id'', LStr (args_simulation_id args))]\<rparr>]
       \<and> processes (snd (main env args w)) = processes w
       \<and> files (snd (main env args w)) = files w
       \<and> open_files (snd (main env args w)) = open_files w
       \<and> ticks (snd (main env args w)) = ticks w"
proof -
  have "get_simulation index (args_simulation_id args) = None"
    using assms(2) by (simp add: get_simulation_def get_simulation_loop_None)
  from main_not_found [OF assms(1) this] show ?thesis
    by simp
qed

theorem main_simulation_not_found_witness:
  "fst (main env1 (args_of ''lorenz'' ''fpm'') (world_of ''index'' ''three columns''))
     = Inl (ValueError (not_found_message ''lorenz''))
   \<and> log_records (snd (main env1 (args_of ''lorenz'' ''fpm'')
                          (world_of ''index'' ''three columns'')))
     = [\<lparr>severity = Error, event = ''Simulation with provided id not found.'',
         bindings = [(''simulation_id'', LStr ''lorenz'')]\<rparr>]
   \<and> processes (snd (main env1 (args_of ''lorenz'' ''fpm'')
                         (world_of ''index'' ''three columns''))) = []
   \<and> files (snd (main env1 (args_of ''lorenz'' ''fpm'')
                     (world_of ''index'' ''three columns'')))
     = files (world_of ''index'' ''three columns'')"
proof -
  have f: "files (world_of ''index'' ''three columns'') (Path ''index.json'')
           = Some (Bytes ''index'')"
    by (simp add: world_of_def)
  have j: "json_loads env1 ''index'' = Inr (spec_index_document [sim_pendulum, sim_orbit1])"
    by (simp add: env1_def env0_def)
  have c: "\<forall>s \<in> set [sim_pendulum, sim_orbit1]. field_constraints s"
    by (simp add: field_constraints_def sim_pendulum_def sim_orbit1_def)
  have l: "load_index env1 (world_of ''index'' ''three columns'')
           = Inr \<lparr>simulations = [sim_pendulum, sim_orbit1]\<rparr>"
    by (rule load_index_roundtrip [OF f j c])
  have a: "\<forall>s \<in> set (simulations \<lparr>simulations = [sim_pendulum, sim_orbit1]\<rparr>).
             simulation_id s \<noteq> args_simulation_id (args_of ''lorenz'' ''fpm'')"
    by (simp add: sim_pendulum_def sim_orbit1_def args_of_def)
  have w: "log_records (world_of ''index'' ''three columns'') = []"
    "processes (world_of ''index'' ''three columns'') = []"
    by (simp_all add: world_of_def)
  have i: "args_simulation_id (args_of ''lorenz'' ''fpm'') = ''lorenz''"
    by (simp add: args_of_def)
  from main_simulation_not_found [OF l a] show ?thesis
    unfolding i w by simp
qed

lemma timestamp_env1: "string_of_int (py_int (clock env1 0)) = ''1700000000''"
  by (simp add: env1_def env0_def py_int_def string_of_int_def string_of_nat.simps digit_char_def)

text \<open>
  Claim C8. The log path and the plot path of a run are
  \<^verbatim>\<open>Path(output_dir) / "<simulation_id>_<int(start_ts)>.log"\<close> and the same with
  \<^verbatim>\<open>.png\<close>, both from the one reading \<^verbatim>\<open>start_ts\<close> of the clock; their names are one
  stem followed by \<^verbatim>\<open>.log\<close> and by \<^verbatim>\<open>.png\<close>. A run of \<^verbatim>\<open>main\<close> changes no file but
  these two, and a run that ends without error has written both.
\<close>

theorem main_artifact_paths:
  "log_file_path args ts
     = Slash (Path (output_dir args))
         (args_simulation_id args @ ''_'' @ string_of_int (py_int ts) @ ''.log'')
   \<and> plot_path args ts
     = Slash (Path (output_dir args))
         (args_simulation_id args @ ''_'' @ string_of_int (py_int ts) @ ''.png'')
   \<and> (\<exists>stem. path_name (log_file_path args ts) = stem @ ''.log''
             \<and> path_name (plot_path args ts) = stem @ ''.png'')
   \<and> (\<forall>q. q \<noteq> log_file_path args (clock env (ticks w)) \<and>
            q \<noteq> plot_path args (clock env (ticks w))
            \<longrightarrow> files (snd (main env args w)) q = files w q)
   \<and> (fst (main env args w) = Inr ()
        \<longrightarrow> (\<exists>out fig.
               files (snd (main env args w)) (log_file_path args (clock env (ticks w)))
                 = Some (Bytes out)
             \<and> files (snd (main env args w)) (plot_path args (clock env (ticks w)))
                 = Some (Image fig)))"
proof (intro conjI allI impI)
  show "log_file_path args ts
     = Slash (Path (output_dir args))
         (args_simulation_id args @ ''_'' @ string_of_int (py_int ts) @ ''.log'')"
    by (simp add: log_file_path_def)
  show "plot_path args ts
     = Slash (Path (output_dir args))
         (args_simulation_id args @ ''_'' @ string_of_int (py_int ts) @ ''.png'')"
    by (simp add: plot_path_def)
  let ?stem = "last_component (args_simulation_id args @ ''_'' @ string_of_int (py_int ts))"
  have "path_name (log_file_path args ts) = ?stem @ ''.log''"
    using last_component_append
            [of "''.log''" "args_simulation_id args @ ''_'' @ string_of_int (py_int ts)"]
    by (simp add: log_file_path_def)
  moreover have "path_name (plot_path args ts) = ?stem @ ''.png''"
    using last_component_append
            [of "''.png''" "args_simulation_id args @ ''_'' @ string_of_int (py_int ts)"]
    by (simp add: plot_path_def)
  ultimately show "\<exists>stem. path_name (log_file_path args ts) = stem @ ''.log''
             \<and> path_name (plot_path args ts) = stem @ ''.png''"
    by (intro exI [of _ ?stem] conjI)
next
  fix q
  assume "q \<noteq> log_file_path args (clock env (ticks w)) \<and>
            q \<noteq> plot_path args (clock env (ticks w))"
  then show "files (snd (main env args w)) q = files w q"
    using main_files_frame by blast
next
  assume "fst (main env args w) = Inr ()"
  then show "\<exists>out fig.
               files (snd (main env args w)) (log_file_path args (clock env (ticks w)))
                 = Some (Bytes out)
             \<and> files (snd (main env args w)) (plot_path args (clock env (ticks w)))
                 = Some (Image fig)"
    by (rule main_Inr_files)
qed

theorem main_artifact_paths_witness:
  "log_file_path (args_of ''orbit1'' ''fpm'') (clock env1 0)
     = Slash (Path ''output'') ''orbit1_1700000000.log''
   \<and> plot_path (args_of ''orbit1'' ''fpm'') (clock env1 0)
     = Slash (Path ''output'') ''orbit1_1700000000.png''
   \<and> fst (main env1 (args_of ''orbit1'' ''fpm'') (world_of ''index'' ''three columns''))
     = Inr ()
   \<and> (\<exists>out fig.
         files (snd (main env1 (args_of ''orbit1'' ''fpm'')
                       (world_of ''index'' ''three columns'')))
           (Slash (Path ''output'') ''orbit1_1700000000.log'') = Some (Bytes out)
       \<and> files (snd (main env1 (args_of ''orbit1'' ''fpm'')
                       (world_of ''index'' ''three columns'')))
           (Slash (Path ''output'') ''orbit1_1700000000.png'') = Some (Image fig))
   \<and> files (snd (main env1 (args_of ''orbit1'' ''fpm'')
                     (world_of ''index'' ''three columns'')))
       (Path ''index.json'') = Some (Bytes ''index'')"
proof -
  let ?A = "args_of ''orbit1'' ''fpm''"
  let ?W = "world_of ''index'' ''three columns''"
  let ?lp = "Slash (Path ''output'') ''orbit1_1700000000.log''"
  let ?pp = "Slash (Path ''output'') ''orbit1_1700000000.png''"
  note inst = main_artifact_paths [of ?A "clock env1 0" env1 ?W]
  have t: "ticks ?W = 0"
    by (simp add: world_of_def)
  have lp: "log_file_path ?A (clock env1 0) = ?lp"
    using inst [THEN conjunct1] by (simp add: timestamp_env1 args_of_def)
  have pp: "plot_path ?A (clock env1 0) = ?pp"
    using inst [THEN conjunct2, THEN conjunct1] by (simp add: timestamp_env1 args_of_def)
  have f: "files ?W (Path ''index.json'') = Some (Bytes ''index'')"
    by (simp add: world_of_def)
  have j: "json_loads env1 ''index'' = Inr (spec_index_document [sim_pendulum, sim_orbit1])"
    by (simp add: env1_def env0_def)
  have c: "\<forall>s \<in> set [sim_pendulum, sim_orbit1]. field_constraints s"
    by (simp add: field_constraints_def sim_pendulum_def sim_orbit1_def)
  have h1: "load_index env1 ?W = Inr \<lparr>simulations = [sim_pendulum, sim_orbit1]\<rparr>"
    by (rule load_index_roundtrip [OF f j c])
  have h2: "get_simulation \<lparr>simulations = [sim_pendulum, sim_orbit1]\<rparr> (args_simulation_id ?A)
            = Some sim_orbit1"
    by (simp add: get_simulation_def args_of_def sim_pendulum_def sim_orbit1_def)
  have h3: "writable env1 (log_file_path ?A (clock env1 (ticks ?W)))"
    by (simp add: env1_def env0_def log_file_path_def args_of_def)
  have h4: "spawn env1 [fpm_binary_path ?A, ''run'', ''--target'', entrypoint sim_orbit1]
            = Exited ''0,0,0'' 0"
    by (simp add: env1_def env0_def args_of_def sim_orbit1_def)
  let ?W5 = "log_emit [(''simulation_id'', LStr (args_simulation_id ?A))] Info
              ''Simulation finished.''
              [(''duration_seconds'',
                LNum (py_round2 (clock env1 (Suc (ticks ?W)) - clock env1 (ticks ?W)))),
               (''log_file'', LStr (path_name (log_file_path ?A (clock env1 (ticks ?W)))))]
              (?W\<lparr>ticks := Suc (Suc (ticks ?W)),
                 log_records := log_records ?W @
                   [\<lparr>severity = Info, event = ''Running simulation.'',
                     bindings = [(''simulation_id'', LStr (args_simulation_id ?A))]\<rparr>],
                 files := (files ?W)(log_file_path ?A (clock env1 (ticks ?W))
                            \<mapsto> Bytes ''0,0,0''),
                 processes := processes ?W @
                   [[fpm_binary_path ?A, ''run'', ''--target'', entrypoint sim_orbit1]]\<rparr>)"
  have f5: "files ?W5 (Path (output_path sim_orbit1)) = Some (Bytes ''three columns'')"
    by (simp add: log_file_path_def world_of_def sim_orbit1_def)
  let ?cx = "[IntCell 0, IntCell 1, IntCell 2]"
  let ?cy = "[IntCell 0, IntCell 1, IntCell 0]"
  have p: "parse_csv env1 ''three columns'' = Inr [?cx, ?cy, ?cx]"
    by (simp add: env1_def)
  have tb: "table [?cx, ?cy, ?cx] 3"
    by (simp add: table_def)
  have g: "3 \<le> length [?cx, ?cy, ?cx]"
    by simp
  let ?df = "[(''x'', ?cx), (''y'', ?cy), (''z'', ?cx)]"
  have h5: "load_output_data env1 ?W5 sim_orbit1 = Inr ?df"
    using load_output_data_wide [OF f5 p tb g] by simp
  have n: "?cx \<noteq> []" by simp
  have cx: "map_of ?df ''x'' = Some ?cx" and cy: "map_of ?df ''y'' = Some ?cy"
    and cz: "map_of ?df ''z'' = Some ?cx"
    by simp_all
  have ly: "length ?cy = length ?cx" and lz: "length ?cx = length ?cx"
    by simp_all
  have rd: "round64 env1 = (\<lambda>q. q)"
    by (simp add: env1_def)
  have v: "max_range env1 (to_numpy env1 ?cx) (to_numpy env1 ?cy) (to_numpy env1 ?cx)
            = Inr (Finite 1)"
    "mid env1 (to_numpy env1 ?cx) = Inr (Finite 1)"
    "mid env1 (to_numpy env1 ?cy) = Inr (Finite (1 / 2))"
    by (simp_all add: max_range_def span_def mid_def ebind_def to_numpy_def wrap64_def
          fl_def rd float_max_def)
  have lf: "limits_finite env1 (Finite 1) (Finite 1) (Finite (1 / 2)) (Finite 1)"
    by (simp add: limits_finite_def fsub_def fl_def rd float_max_def)
  note h6 = trajectory_figure_eq [OF cx cy cz n ly lz v(1) v(2) v(3) v(2),
              unfolded if_P [OF lf]]
  have h7: "writable env1 (plot_path ?A (clock env1 (ticks ?W)))"
    by (simp add: env1_def env0_def plot_path_def args_of_def)
  have s: "fst (main env1 ?A ?W) = Inr ()"
    by (rule main_success(1) [OF h1 h2 h3 h4 h5 h6 h7])
  from inst [THEN conjunct2, THEN conjunct2, THEN conjunct2, THEN conjunct2, rule_format, OF s]
  have e: "\<exists>out fig. files (snd (main env1 ?A ?W)) ?lp = Some (Bytes out)
                   \<and> files (snd (main env1 ?A ?W)) ?pp = Some (Image fig)"
    unfolding t lp pp .
  have q: "Path ''index.json'' \<noteq> log_file_path ?A (clock env1 (ticks ?W))
           \<and> Path ''index.json'' \<noteq> plot_path ?A (clock env1 (ticks ?W))"
    by (simp add: log_file_path_def plot_path_def)
  from inst [THEN conjunct2, THEN conjunct2, THEN conjunct2, THEN conjunct1, rule_format, OF q]
  have k: "files (snd (main env1 ?A ?W)) (Path ''index.json'') = Some (Bytes ''index'')"
    using f by simp
  from lp pp s e k show ?thesis
    by (intro conjI)
qed

end
